theory Spec2Isabelle
  imports Complex_Main
begin

section \<open>Numbers\<close>

text \<open>
  A JavaScript number is a binary64 value: a finite one (\<open>Finite 0\<close> is the zero with the
  positive sign, \<open>NegZero\<close> the other one), an infinity or \<^verbatim>\<open>NaN\<close>. Every operation computes
  the exact result and rounds it: to the nearest value with a 53-bit significand, ties to
  the even one, exponents from -1074 up (\<open>b64\<close>); a result beyond the largest finite value
  becomes an infinity, one that rounds to nothing a zero of its sign (\<open>round_number\<close>).
  \<open>exponent x\<close> is the \<open>e\<close> with \<open>2 powi e \<le> \<bar>x\<bar> < 2 powi (e + 1)\<close>, from the bit length of
  the integer part (of the reciprocal below 1). \<open>num x\<close> is the number a decimal literal
  \<open>x\<close> denotes.
\<close>

datatype number = Finite real | NegZero | PosInf | NegInf | NaN

function bits :: "int \<Rightarrow> nat" where
  "bits n = (if n \<le> 0 then 0 else Suc (bits (n div 2)))"
  by pat_completeness auto

termination
  by (relation "measure nat") auto

declare bits.simps [simp del]

definition exponent :: "real \<Rightarrow> int" where
  "exponent x =
     (if 1 \<le> \<bar>x\<bar> then int (bits \<lfloor>\<bar>x\<bar>\<rfloor>) - 1
      else - int (bits (\<lceil>1 / \<bar>x\<bar>\<rceil> - 1)))"

definition roundTiesToEven :: "real \<Rightarrow> int" where
  "roundTiesToEven s =
     (let n = \<lfloor>s\<rfloor>; f = s - of_int n
      in if f < 1 / 2 then n else if 1 / 2 < f then n + 1 else if even n then n else n + 1)"

definition b64 :: "real \<Rightarrow> real" where
  "b64 x =
     (if x = 0 then 0
      else (let q = max (exponent x - 52) (- 1074)
            in of_int (roundTiesToEven (x / 2 powi q)) * 2 powi q))"

definition max_finite :: real where
  "max_finite = (2 ^ 53 - 1) * 2 ^ 971"

definition round_number :: "bool \<Rightarrow> real \<Rightarrow> number" where
  "round_number negative_zero x =
     (if x = 0 then (if negative_zero then NegZero else Finite 0)
      else (let r = b64 x
            in if max_finite < \<bar>r\<bar> then (if 0 < x then PosInf else NegInf)
               else if r = 0 then (if x < 0 then NegZero else Finite 0)
               else Finite r))"

definition num :: "real \<Rightarrow> number" where
  "num x = round_number False x"

fun negative :: "number \<Rightarrow> bool" where
  "negative (Finite x) = (x < 0)"
| "negative NegZero = True"
| "negative PosInf = False"
| "negative NegInf = True"
| "negative NaN = False"

fun val :: "number \<Rightarrow> real" where
  "val (Finite x) = x"
| "val _ = 0"

fun is_inf :: "number \<Rightarrow> bool" where
  "is_inf PosInf = True"
| "is_inf NegInf = True"
| "is_inf _ = False"

fun is_zero :: "number \<Rightarrow> bool" where
  "is_zero (Finite x) = (x = 0)"
| "is_zero NegZero = True"
| "is_zero _ = False"

definition signed_inf :: "bool \<Rightarrow> number" where
  "signed_inf neg = (if neg then NegInf else PosInf)"

definition signed_zero :: "bool \<Rightarrow> number" where
  "signed_zero neg = (if neg then NegZero else Finite 0)"

text \<open>Unary minus, \<^verbatim>\<open>+\<close>, \<^verbatim>\<open>-\<close>, \<^verbatim>\<open>*\<close>, \<^verbatim>\<open>/\<close>, \<^verbatim>\<open><\<close> and \<^verbatim>\<open>Math.min\<close> of two numbers.\<close>

fun fneg :: "number \<Rightarrow> number" where
  "fneg (Finite x) = (if x = 0 then NegZero else Finite (- x))"
| "fneg NegZero = Finite 0"
| "fneg PosInf = NegInf"
| "fneg NegInf = PosInf"
| "fneg NaN = NaN"

definition fadd :: "number \<Rightarrow> number \<Rightarrow> number" where
  "fadd a b =
     (if a = NaN \<or> b = NaN then NaN
      else if a = PosInf then (if b = NegInf then NaN else PosInf)
      else if a = NegInf then (if b = PosInf then NaN else NegInf)
      else if b = PosInf then PosInf
      else if b = NegInf then NegInf
      else round_number (a = NegZero \<and> b = NegZero) (val a + val b))"

definition fsub :: "number \<Rightarrow> number \<Rightarrow> number" where
  "fsub a b = fadd a (fneg b)"

definition fmul :: "number \<Rightarrow> number \<Rightarrow> number" where
  "fmul a b =
     (if a = NaN \<or> b = NaN then NaN
      else if is_inf a \<or> is_inf b
      then (if is_zero a \<or> is_zero b then NaN else signed_inf (negative a \<noteq> negative b))
      else round_number (negative a \<noteq> negative b) (val a * val b))"

definition fdiv :: "number \<Rightarrow> number \<Rightarrow> number" where
  "fdiv a b =
     (if a = NaN \<or> b = NaN then NaN
      else if is_inf a
      then (if is_inf b then NaN else signed_inf (negative a \<noteq> negative b))
      else if is_inf b then signed_zero (negative a \<noteq> negative b)
      else if is_zero b
      then (if is_zero a then NaN else signed_inf (negative a \<noteq> negative b))
      else round_number (negative a \<noteq> negative b) (val a / val b))"

definition fless :: "number \<Rightarrow> number \<Rightarrow> bool" where
  "fless a b =
     (if a = NaN \<or> b = NaN then False
      else if a = NegInf then b \<noteq> NegInf
      else if b = PosInf then a \<noteq> PosInf
      else if a = PosInf \<or> b = NegInf then False
      else val a < val b)"

definition fmin :: "number \<Rightarrow> number \<Rightarrow> number" where
  "fmin a b =
     (if a = NaN \<or> b = NaN then NaN
      else if fless a b then a
      else if fless b a then b
      else if a = NegZero then a else b)"

section \<open>Data model (types/tracking.ts)\<close>

text \<open>
  The records follow the latest \<^verbatim>\<open>Driver\<close>, \<^verbatim>\<open>Location\<close> and \<^verbatim>\<open>Delivery\<close> interfaces
  (the ones with \<^verbatim>\<open>prevLocation\<close>, \<^verbatim>\<open>phone\<close> and \<^verbatim>\<open>lastUpdate\<close>). An optional property is an
  \<open>option\<close>, \<open>None\<close> being JavaScript's \<^verbatim>\<open>undefined\<close>; \<^verbatim>\<open>currentDelivery: Delivery | null\<close>
  is an \<open>option\<close> with \<open>None\<close> for \<^verbatim>\<open>null\<close>. The interface declares \<^verbatim>\<open>lat\<close> and \<^verbatim>\<open>lng\<close> as
  numbers, but \<^verbatim>\<open>processFlutterUpdate\<close> copies them from the parsed message unchecked, so a
  stored location can hold \<^verbatim>\<open>undefined\<close> there: both are options too. Time stamps are the
  integers \<^verbatim>\<open>Date.now()\<close> returns (milliseconds).
\<close>

record Location =
  lat :: "number option"
  lng :: "number option"

record Delivery =
  delivery_id :: string
  address :: string
  estimatedArrival :: string

datatype Status = Active | Inactive | Break

record Driver =
  driver_id :: string
  name :: string
  vehicle :: string
  status :: Status
  location :: Location
  prevLocation :: "Location option"
  phone :: "string option"
  currentDelivery :: "Delivery option"
  lastUpdate :: "int option"

text \<open>
  What \<^verbatim>\<open>JSON.parse(message.data)\<close> hands to the handler: it throws on undecodable text,
  it may return \<^verbatim>\<open>null\<close> (reading \<^verbatim>\<open>data.type\<close> then throws a TypeError), and otherwise
  the handler reads the properties below, each of which may be missing
  (\<^verbatim>\<open>WebSocketMessage\<close> and \<^verbatim>\<open>FlutterDriverUpdate\<close> in one record; a parsed number, string or
  array is an object with none of them). The handler only tests \<^verbatim>\<open>data.drivers\<close> for
  truthiness: it may be missing or falsy (\<open>Missing\<close>), an array of driver records
  (\<open>DriverArray\<close>), or any other truthy value (\<open>OtherValue\<close>: a number, a string, an object,
  an array of other things). The flat properties are numbers and strings where they are
  present; other types for them are outside the model.
\<close>

datatype drivers_field = Missing | DriverArray "Driver list" | OtherValue

record WebSocketMessage =
  m_type :: "string option"
  m_driver :: "Driver option"
  m_drivers :: drivers_field
  m_lat :: "number option"
  m_lng :: "number option"
  m_name :: "string option"
  m_phone :: "string option"
  m_id :: "string option"

datatype parsed = SyntaxError | JNull | JObject WebSocketMessage

text \<open>
  The React state \<^verbatim>\<open>drivers\<close>: a list of driver records, or whatever else a
  \<^verbatim>\<open>drivers_list\<close> message has put there.
\<close>

datatype store = Drivers "Driver list" | NoDriverList

text \<open>
  The observable effects of the page and of the socket hook: the toasts, \<^verbatim>\<open>console.error\<close>,
  \<^verbatim>\<open>window.setTimeout\<close> (timer id and delay) and \<^verbatim>\<open>window.clearTimeout\<close>,
  \<^verbatim>\<open>new WebSocket(url)\<close> and \<^verbatim>\<open>socket.close()\<close>. The \<^verbatim>\<open>console.log\<close> trace lines are left
  out.
\<close>

datatype effect =
    ToastSuccess string
  | ToastInfo string
  | ToastError string
  | ConsoleError string
  | SetTimeout nat nat
  | ClearTimeout nat
  | NewWebSocket
  | SocketClose

section \<open>JavaScript helpers\<close>

text \<open>A string is falsy when it is \<^verbatim>\<open>undefined\<close> or empty: \<^verbatim>\<open>a || b\<close>.\<close>

fun truthy :: "string option \<Rightarrow> bool" where
  "truthy None = False"
| "truthy (Some s) = (s \<noteq> [])"

definition or_else :: "string option \<Rightarrow> string \<Rightarrow> string" where
  "or_else a b = (case a of None \<Rightarrow> b | Some s \<Rightarrow> if s = [] then b else s)"

text \<open>\<^verbatim>\<open>Array.prototype.findIndex\<close>, \<open>None\<close> for \<^verbatim>\<open>-1\<close>.\<close>

fun findIndex :: "('a \<Rightarrow> bool) \<Rightarrow> 'a list \<Rightarrow> nat option" where
  "findIndex P [] = None"
| "findIndex P (x # xs) = (if P x then Some 0 else map_option Suc (findIndex P xs))"

text \<open>The decimal text of \<^verbatim>\<open>Date.now()\<close> inside a template string.\<close>

fun digits :: "nat \<Rightarrow> string" where
  "digits n = (if n < 10 then [''0123456789'' ! n]
               else digits (n div 10) @ [''0123456789'' ! (n mod 10)])"

declare digits.simps [simp del]

definition toString :: "int \<Rightarrow> string" where
  "toString i = (if i < 0 then CHR ''-'' # digits (nat (- i)) else digits (nat i))"

text \<open>\<^verbatim>\<open>x + d\<close> on a coordinate: \<^verbatim>\<open>undefined + d\<close> is \<^verbatim>\<open>NaN\<close>.\<close>

definition jsadd :: "number option \<Rightarrow> number \<Rightarrow> number option" where
  "jsadd x d = (case x of None \<Rightarrow> Some NaN | Some v \<Rightarrow> Some (fadd v d))"

section \<open>Driver state store (pages/DriverTracking.tsx, latest version)\<close>

text \<open>
  \<^verbatim>\<open>{...old, ...upd}\<close> for two \<^verbatim>\<open>Driver\<close> objects: every required property comes from
  \<open>upd\<close>, an optional one from \<open>upd\<close> when it has it and from \<open>old\<close> otherwise.
\<close>

definition spread :: "Driver \<Rightarrow> Driver \<Rightarrow> Driver" where
  "spread old upd = upd
     \<lparr> prevLocation := (case prevLocation upd of None \<Rightarrow> prevLocation old | Some l \<Rightarrow> Some l),
       phone := (case phone upd of None \<Rightarrow> phone old | Some p \<Rightarrow> Some p),
       lastUpdate := (case lastUpdate upd of None \<Rightarrow> lastUpdate old | Some t \<Rightarrow> Some t) \<rparr>"

text \<open>
  \<^verbatim>\<open>updateDriverLocation\<close>: the updater passed to \<^verbatim>\<open>setDrivers\<close>, applied to the current
  state \<open>prev\<close>; \<open>now\<close> is \<^verbatim>\<open>Date.now()\<close>. The result is the new state and the toasts raised.
  (The earlier version of the page is the same function without the two \<^verbatim>\<open>lastUpdate\<close>
  stamps.)
\<close>

definition updateDriverLocation :: "int \<Rightarrow> Driver \<Rightarrow> Driver list \<Rightarrow> Driver list \<times> effect list" where
  "updateDriverLocation now updatedDriver prev =
     (case findIndex (\<lambda>driver. driver_id driver = driver_id updatedDriver) prev of
        Some existingDriverIndex \<Rightarrow>
          (prev[existingDriverIndex :=
                  (spread (prev ! existingDriverIndex) updatedDriver)
                    \<lparr> prevLocation := Some (location (prev ! existingDriverIndex)),
                      lastUpdate := Some now \<rparr>],
           [])
      | None \<Rightarrow>
          (prev @ [updatedDriver\<lparr> lastUpdate := Some now \<rparr>],
           [ToastSuccess (''New driver connected: '' @ name updatedDriver)]))"

text \<open>
  The same updater for the object \<^verbatim>\<open>processFlutterUpdate\<close> builds for a known id. That
  object is written with \<^verbatim>\<open>phone: phone || existingDriver.phone\<close>, so it has \<^verbatim>\<open>phone\<close> as a
  property of its own even when the value is \<^verbatim>\<open>undefined\<close>, and a property of its own wins
  in the spread: the merged record takes its \<^verbatim>\<open>phone\<close> from the update, whatever the stored
  record has.
\<close>

definition updateDriverLocation_own_phone ::
    "int \<Rightarrow> Driver \<Rightarrow> Driver list \<Rightarrow> Driver list \<times> effect list" where
  "updateDriverLocation_own_phone now updatedDriver prev =
     (case findIndex (\<lambda>driver. driver_id driver = driver_id updatedDriver) prev of
        Some existingDriverIndex \<Rightarrow>
          (prev[existingDriverIndex :=
                  (spread (prev ! existingDriverIndex) updatedDriver)
                    \<lparr> phone := phone updatedDriver,
                      prevLocation := Some (location (prev ! existingDriverIndex)),
                      lastUpdate := Some now \<rparr>],
           [])
      | None \<Rightarrow>
          (prev @ [updatedDriver\<lparr> lastUpdate := Some now \<rparr>],
           [ToastSuccess (''New driver connected: '' @ name updatedDriver)]))"

text \<open>
  \<^verbatim>\<open>processFlutterUpdate\<close>. It reads two lists: \<open>drivers\<close> is the constant of the render
  that created the handler, against which the id is looked up (\<^verbatim>\<open>drivers.some\<close>,
  \<^verbatim>\<open>drivers.find\<close>); \<open>prev\<close> is the state at the moment the updater given to \<^verbatim>\<open>setDrivers\<close>
  runs. They are the same list when the page has been rendered since the last change of
  the state, and differ when a message arrives before that.
\<close>

definition processFlutterUpdate ::
    "int \<Rightarrow> WebSocketMessage \<Rightarrow> Driver list \<Rightarrow> Driver list \<Rightarrow> Driver list \<times> effect list" where
  "processFlutterUpdate now data drivers prev =
     (case (if truthy (m_id data)
            then List.find (\<lambda>d. Some (driver_id d) = m_id data) drivers else None) of
        Some existing \<Rightarrow>
          updateDriverLocation_own_phone now
            (existing
              \<lparr> location := \<lparr> lat = m_lat data, lng = m_lng data \<rparr>,
                name := or_else (m_name data) (name existing),
                phone := (if truthy (m_phone data) then m_phone data else phone existing),
                status := Active,
                lastUpdate := Some now \<rparr>)
            prev
      | None \<Rightarrow>
          (prev @
             [\<lparr> driver_id = or_else (m_id data) (''flutter-'' @ toString now),
                name = or_else (m_name data) ''Unknown Driver'',
                vehicle = ''Unknown Vehicle'',
                status = Active,
                location = \<lparr> lat = m_lat data, lng = m_lng data \<rparr>,
                prevLocation = None,
                phone = Some (or_else (m_phone data) ''Unknown''),
                currentDelivery = None,
                lastUpdate = Some now \<rparr>],
           [ToastSuccess (''New driver connected: '' @ or_else (m_name data) ''Unknown Driver'')]))"

text \<open>
  \<^verbatim>\<open>onMessage\<close>, branch for branch, with the same two lists; the result is the next state
  and the effects. The \<^verbatim>\<open>try\<close>/\<^verbatim>\<open>catch\<close> turns the SyntaxError of \<^verbatim>\<open>JSON.parse\<close> and the
  TypeError of \<^verbatim>\<open>null.type\<close> into one \<^verbatim>\<open>console.error\<close>. \<^verbatim>\<open>setDrivers(data.drivers)\<close> stores
  whatever truthy value the message has.
\<close>

definition onMessage :: "int \<Rightarrow> parsed \<Rightarrow> Driver list \<Rightarrow> Driver list \<Rightarrow> store \<times> effect list" where
  "onMessage now message drivers prev =
     (case message of
        SyntaxError \<Rightarrow> (Drivers prev, [ConsoleError ''Error parsing WebSocket message:''])
      | JNull \<Rightarrow> (Drivers prev, [ConsoleError ''Error parsing WebSocket message:''])
      | JObject data \<Rightarrow>
          if m_type data = Some ''driver_location_update''
          then (let (after, es) = processFlutterUpdate now data drivers prev in (Drivers after, es))
          else if m_type data = Some ''driver_location_update'' \<and> m_driver data \<noteq> None
          then (case m_driver data of
                  Some d \<Rightarrow> (let (after, es) = updateDriverLocation now d prev in (Drivers after, es))
                | None \<Rightarrow> (Drivers prev, []))
          else if m_type data = Some ''drivers_list''
          then (case m_drivers data of
                  DriverArray ds \<Rightarrow> (Drivers ds, [])
                | OtherValue \<Rightarrow> (NoDriverList, [])
                | Missing \<Rightarrow> (Drivers prev, []))
          else (Drivers prev, []))"

text \<open>
  The simulated-motion tick (the \<^verbatim>\<open>setInterval\<close> callback). \<open>rnd\<close> is the stream of
  \<^verbatim>\<open>Math.random()\<close> results and \<open>k\<close> the number already drawn: two per active driver.
\<close>

fun moveTick :: "int \<Rightarrow> (nat \<Rightarrow> number) \<Rightarrow> nat \<Rightarrow> Driver list \<Rightarrow> Driver list" where
  "moveTick now rnd k [] = []"
| "moveTick now rnd k (driver # rest) =
     (if status driver \<noteq> Active then driver # moveTick now rnd k rest
      else
        (let latChange = fmul (fsub (rnd k) (num 0.5)) (num 0.001);
             lngChange = fmul (fsub (rnd (k + 1)) (num 0.5)) (num 0.001)
         in driver
              \<lparr> location := \<lparr> lat = jsadd (lat (location driver)) latChange,
                               lng = jsadd (lng (location driver)) lngChange \<rparr>,
                prevLocation := Some (location driver),
                lastUpdate := Some now \<rparr>
            # moveTick now rnd (k + 2) rest))"

text \<open>
  One reconcile operation on the store: a message handled at time \<open>now\<close> by a handler of a
  render that saw the list \<open>drivers\<close> (any list is admitted for it), or a tick. A sequence of
  them is followed as long as the state is a list of drivers; what the page makes of any
  other value is not modelled, so a run stops there.
\<close>

datatype reconcile_op = Message int "Driver list" parsed | Tick int "nat \<Rightarrow> number"

fun reconcile :: "reconcile_op \<Rightarrow> Driver list \<Rightarrow> store" where
  "reconcile (Message now drivers message) prev = fst (onMessage now message drivers prev)"
| "reconcile (Tick now rnd) prev = Drivers (moveTick now rnd 0 prev)"

fun reconcile_all :: "reconcile_op list \<Rightarrow> Driver list \<Rightarrow> store" where
  "reconcile_all [] prev = Drivers prev"
| "reconcile_all (operation # rest) prev =
     (case reconcile operation prev of
        Drivers after \<Rightarrow> reconcile_all rest after
      | NoDriverList \<Rightarrow> NoDriverList)"

text \<open>\<^verbatim>\<open>store.get(id)\<close>: the first record with that id.\<close>

definition get_driver :: "string \<Rightarrow> Driver list \<Rightarrow> Driver option" where
  "get_driver i drivers = List.find (\<lambda>d. driver_id d = i) drivers"

fun records :: "store \<Rightarrow> Driver list" where
  "records (Drivers ds) = ds"
| "records NoDriverList = []"

section \<open>Staleness (isDriverStale in MapView.tsx and DriversList.tsx)\<close>

text \<open>\<^verbatim>\<open>!driver.lastUpdate\<close> holds for a missing time stamp and for the number 0.\<close>

definition isDriverStale :: "int \<Rightarrow> Driver \<Rightarrow> bool" where
  "isDriverStale now driver =
     (case lastUpdate driver of
        None \<Rightarrow> False
      | Some t \<Rightarrow> if t = 0 then False else now - t > 2 * 60 * 1000)"

text \<open>The demo seed \<^verbatim>\<open>mockDrivers\<close>; \<open>now\<close> is \<^verbatim>\<open>Date.now()\<close> and \<open>toISOString\<close> the
  date formatter, which nothing here depends on.\<close>

definition mockDrivers :: "int \<Rightarrow> (int \<Rightarrow> string) \<Rightarrow> Driver list" where
  "mockDrivers now toISOString =
     (let baghdadLat = num 33.3152; baghdadLng = num 44.3661 in
      [ \<lparr> driver_id = ''1'', name = ''John Doe'', vehicle = ''Delivery Van'', status = Active,
          location = \<lparr> lat = Some baghdadLat, lng = Some baghdadLng \<rparr>, prevLocation = None,
          phone = Some ''+964 750 123 4567'',
          currentDelivery = Some \<lparr> delivery_id = ''del-123'', address = ''Karrada, Baghdad, Iraq'',
                                   estimatedArrival = toISOString (now + 15 * 60000) \<rparr>,
          lastUpdate = Some now \<rparr>,
        \<lparr> driver_id = ''2'', name = ''Jane Smith'', vehicle = ''Scooter'', status = Active,
          location = \<lparr> lat = Some (fadd baghdadLat (num 0.01)),
                       lng = Some (fadd baghdadLng (num 0.01)) \<rparr>,
          prevLocation = None, phone = Some ''+964 770 987 6543'',
          currentDelivery = Some \<lparr> delivery_id = ''del-456'', address = ''Mansour, Baghdad, Iraq'',
                                   estimatedArrival = toISOString (now + 8 * 60000) \<rparr>,
          lastUpdate = Some now \<rparr>,
        \<lparr> driver_id = ''3'', name = ''Dave Wilson'', vehicle = ''Truck'', status = Inactive,
          location = \<lparr> lat = Some (fsub baghdadLat (num 0.01)),
                       lng = Some (fadd baghdadLng (num 0.02)) \<rparr>,
          prevLocation = None, phone = Some ''+964 780 456 7890'',
          currentDelivery = None,
          lastUpdate = Some (now - 3 * 60 * 1000) \<rparr> ])"

text \<open>A message of the \<^verbatim>\<open>FlutterDriverUpdate\<close> shape, and one of the standard shapes with
  \<^verbatim>\<open>driver\<close> or \<^verbatim>\<open>drivers\<close>.\<close>

definition FlutterDriverUpdate ::
    "number option \<Rightarrow> number option \<Rightarrow> string option \<Rightarrow> string option \<Rightarrow> string option \<Rightarrow> WebSocketMessage" where
  "FlutterDriverUpdate la lo n p i =
     \<lparr> m_type = Some ''driver_location_update'', m_driver = None, m_drivers = Missing,
       m_lat = la, m_lng = lo, m_name = n, m_phone = p, m_id = i \<rparr>"

definition StandardMessage :: "string \<Rightarrow> Driver option \<Rightarrow> drivers_field \<Rightarrow> WebSocketMessage" where
  "StandardMessage t d ds =
     \<lparr> m_type = Some t, m_driver = d, m_drivers = ds,
       m_lat = None, m_lng = None, m_name = None, m_phone = None, m_id = None \<rparr>"

section \<open>Notions used to state the properties\<close>

text \<open>
  The record the specification describes for a patch of an existing driver: the incoming
  fields over the stored ones, \<^verbatim>\<open>prevLocation\<close> the stored location, \<^verbatim>\<open>lastUpdate\<close> the
  current time. (Written from the specification, to be compared with
  \<open>updateDriverLocation\<close>.)
\<close>

definition patch_spec :: "Driver \<Rightarrow> Driver \<Rightarrow> int \<Rightarrow> Driver" where
  "patch_spec old upd now =
     \<lparr> driver_id = driver_id upd, name = name upd, vehicle = vehicle upd, status = status upd,
       location = location upd, prevLocation = Some (location old),
       phone = (case phone upd of None \<Rightarrow> phone old | Some p \<Rightarrow> Some p),
       currentDelivery = currentDelivery upd, lastUpdate = Some now \<rparr>"

definition distinct_ids :: "Driver list \<Rightarrow> bool" where
  "distinct_ids drivers = distinct (map driver_id drivers)"

text \<open>
  Whether the handler treats an update as one for a driver it knows (the id is truthy and in
  the list of its render), and the id the update is stored under otherwise.
\<close>

definition known :: "WebSocketMessage \<Rightarrow> Driver list \<Rightarrow> bool" where
  "known data drivers = (truthy (m_id data) \<and> m_id data \<in> Some ` driver_id ` set drivers)"

definition resolved_id :: "int \<Rightarrow> WebSocketMessage \<Rightarrow> string" where
  "resolved_id now data = or_else (m_id data) (''flutter-'' @ toString now)"

text \<open>
  The operations under which the store keeps its ids apart: a replacement must be a list of
  drivers free of duplicates, and an update the handler takes for a new driver must come
  under an id the store does not have. Everything else is admitted.
\<close>

fun admissible :: "reconcile_op \<Rightarrow> Driver list \<Rightarrow> bool" where
  "admissible (Message now drivers (JObject data)) prev =
     (if m_type data = Some ''driver_location_update''
      then known data drivers \<or> resolved_id now data \<notin> driver_id ` set prev
      else if m_type data = Some ''drivers_list''
      then (case m_drivers data of
              DriverArray ds \<Rightarrow> distinct_ids ds
            | OtherValue \<Rightarrow> False
            | Missing \<Rightarrow> True)
      else True)"
| "admissible _ _ = True"

fun admissible_all :: "reconcile_op list \<Rightarrow> Driver list \<Rightarrow> bool" where
  "admissible_all [] prev = True"
| "admissible_all (operation # rest) prev =
     (admissible operation prev \<and>
      (case reconcile operation prev of
         Drivers after \<Rightarrow> admissible_all rest after
       | NoDriverList \<Rightarrow> False))"

section \<open>Transport adapter (hooks/useWebSocket.ts)\<close>

text \<open>
  The hook's state: the React state \<^verbatim>\<open>readyState\<close>, the refs \<^verbatim>\<open>socket\<close> (with the ready
  state of the socket it holds, \<open>None\<close> for \<^verbatim>\<open>null\<close>), \<^verbatim>\<open>reconnectCount\<close> and
  \<^verbatim>\<open>reconnectTimeoutRef\<close>, the browser's pending timers (id and delay) with the next id
  \<^verbatim>\<open>setTimeout\<close> hands out (ids are positive), and the effects so far. \<open>url_valid\<close> says
  whether \<^verbatim>\<open>new WebSocket(url)\<close> accepts the url or throws. The props are the same in every
  render of a run: the page passes neither a budget nor an interval, and the url is taken
  not to change. The \<^verbatim>\<open>onerror\<close> toast, the messages, the callbacks handed in by the page
  and the unmount are not modelled.
\<close>

datatype ReadyState = CONNECTING | OPEN | CLOSING | CLOSED

record UseWebSocketProps =
  reconnectAttempts :: nat
  reconnectInterval :: nat
  url_valid :: bool


record hook =
  readyState :: ReadyState
  socket :: "ReadyState option"
  reconnectCount :: nat
  reconnectTimeoutRef :: "nat option"
  pending :: "(nat \<times> nat) list"
  next_timer :: nat
  effects :: "effect list"


definition emit :: "effect list \<Rightarrow> hook \<Rightarrow> hook" where
  "emit es h = h\<lparr> effects := effects h @ es \<rparr>"

definition setTimeout :: "nat \<Rightarrow> hook \<Rightarrow> nat \<times> hook" where
  "setTimeout delay h =
     (next_timer h,
      emit [SetTimeout (next_timer h) delay]
        (h\<lparr> pending := pending h @ [(next_timer h, delay)], next_timer := next_timer h + 1 \<rparr>))"

definition clearTimeout :: "nat \<Rightarrow> hook \<Rightarrow> hook" where
  "clearTimeout t h = emit [ClearTimeout t] (h\<lparr> pending := filter (\<lambda>(i, d). i \<noteq> t) (pending h) \<rparr>)"

text \<open>\<^verbatim>\<open>connect\<close>, with its \<^verbatim>\<open>try\<close>/\<^verbatim>\<open>catch\<close> around the constructor.\<close>

definition connect :: "UseWebSocketProps \<Rightarrow> hook \<Rightarrow> hook" where
  "connect props h =
     (if socket h = Some OPEN \<or> socket h = Some CONNECTING then h
      else if url_valid props then emit [NewWebSocket] (h\<lparr> socket := Some CONNECTING \<rparr>)
      else emit [ConsoleError ''WebSocket connection error:'',
                 ToastError ''Failed to establish WebSocket connection.''] h)"


definition onclose :: "UseWebSocketProps \<Rightarrow> bool \<Rightarrow> hook \<Rightarrow> hook" where
  "onclose props wasClean h0 =
     (let h = h0\<lparr> socket := Some CLOSED, readyState := CLOSED \<rparr> in
      if \<not> wasClean \<and> reconnectCount h < reconnectAttempts props then
        (let h1 = h\<lparr> reconnectCount := reconnectCount h + 1 \<rparr>;
             h2 = emit [ToastInfo (''Connection lost. Attempting to reconnect (''
                          @ toString (int (reconnectCount h1)) @ ''/''
                          @ toString (int (reconnectAttempts props)) @ '')...'')] h1;
             h3 = (case reconnectTimeoutRef h2 of
                     Some t \<Rightarrow> clearTimeout t h2
                   | None \<Rightarrow> h2);
             (t, h4) = setTimeout (reconnectInterval props) h3
         in h4\<lparr> reconnectTimeoutRef := Some t \<rparr>)
      else if reconnectCount h \<ge> reconnectAttempts props then
        emit [ToastError (''Failed to reconnect after '' @ toString (int (reconnectAttempts props))
                          @ '' attempts. Please check your connection.'')] h
      else h)"

text \<open>
  The same \<^verbatim>\<open>onclose\<close> handler running for a socket that \<^verbatim>\<open>socket.current\<close> no longer
  holds (the hook has put a new socket there since): the socket the hook holds is not the
  one that closed, everything else is as above.
\<close>

definition onclose_replaced :: "UseWebSocketProps \<Rightarrow> bool \<Rightarrow> hook \<Rightarrow> hook" where
  "onclose_replaced props wasClean h = (onclose props wasClean h)\<lparr> socket := socket h \<rparr>"

text \<open>A pending timer fires and runs its callback, \<^verbatim>\<open>connect\<close>; a timer that was cleared
  never fires.\<close>

definition timeout :: "UseWebSocketProps \<Rightarrow> nat \<Rightarrow> hook \<Rightarrow> hook" where
  "timeout props t h =
     (if t \<in> fst ` set (pending h)
      then connect props (h\<lparr> pending := filter (\<lambda>(i, d). i \<noteq> t) (pending h) \<rparr>)
      else h)"

text \<open>The manual \<^verbatim>\<open>reconnect\<close>: \<^verbatim>\<open>close()\<close> leaves a socket that was open or connecting
  in the closing state.\<close>

definition reconnect :: "UseWebSocketProps \<Rightarrow> hook \<Rightarrow> hook" where
  "reconnect props h0 =
     (let h = (case socket h0 of
                 None \<Rightarrow> h0
               | Some r \<Rightarrow> emit [SocketClose]
                             (h0\<lparr> socket := Some (if r = CLOSED then CLOSED else CLOSING) \<rparr>))
      in connect props (h\<lparr> reconnectCount := 0 \<rparr>))"

text \<open>
  The effect \<^verbatim>\<open>useEffect(() => { connect(); return cleanup }, [connect])\<close>. \<^verbatim>\<open>connect\<close> is
  made by \<^verbatim>\<open>useCallback\<close> with \<^verbatim>\<open>onMessage\<close> and \<^verbatim>\<open>onOpen\<close> among its dependencies, and the
  page hands in new functions for both in every render; so after every render of the page
  the cleanup of the previous effect runs, and then \<^verbatim>\<open>connect\<close>. On the mounted hook there is
  nothing to clean up. \<^verbatim>\<open>reconnectTimeoutRef\<close> is never reset, so the cleanup clears the
  last timer whether it is pending or not.
\<close>

definition cleanup :: "hook \<Rightarrow> hook" where
  "cleanup h0 =
     (let h = (case reconnectTimeoutRef h0 of
                 Some t \<Rightarrow> clearTimeout t h0
               | None \<Rightarrow> h0)
      in case socket h of
           None \<Rightarrow> h
         | Some r \<Rightarrow> emit [SocketClose]
                       (h\<lparr> socket := Some (if r = CLOSED then CLOSED else CLOSING) \<rparr>))"

definition render :: "UseWebSocketProps \<Rightarrow> hook \<Rightarrow> hook" where
  "render props h = connect props (cleanup h)"




text \<open>
  Counting on a run of the hook: the reconnects scheduled (calls of \<^verbatim>\<open>setTimeout\<close>), the
  sockets created, the notices that the retries are used up, the unclean closes among the
  events; the events that happen without the user (unclean closes, timers and renders),
  those that reset the counter, and those of the sockets and timers alone.
\<close>

fun is_SetTimeout :: "effect \<Rightarrow> bool" where
  "is_SetTimeout (SetTimeout t d) = True"
| "is_SetTimeout _ = False"

definition scheduled :: "hook \<Rightarrow> nat" where
  "scheduled h = length (filter is_SetTimeout (effects h))"

definition created :: "hook \<Rightarrow> nat" where
  "created h = length (filter (\<lambda>e. e = NewWebSocket) (effects h))"

definition exhausted_notice :: "UseWebSocketProps \<Rightarrow> effect" where
  "exhausted_notice props =
     ToastError (''Failed to reconnect after '' @ toString (int (reconnectAttempts props))
                  @ '' attempts. Please check your connection.'')"

definition notices :: "UseWebSocketProps \<Rightarrow> hook \<Rightarrow> nat" where
  "notices props h = length (filter (\<lambda>e. e = exhausted_notice props) (effects h))"






section \<open>Position animator (components/tracking/MapView.tsx)\<close>

text \<open>\<^verbatim>\<open>t < 0.5 ? 2 * t * t : -1 + (4 - 2 * t) * t\<close>, every operation rounded.\<close>

definition easeInOut :: "number \<Rightarrow> number" where
  "easeInOut t =
     (if fless t (num 0.5) then fmul (fmul (Finite 2) t) t
      else fadd (Finite (- 1)) (fmul (fsub (Finite 4) (fmul (Finite 2) t)) t))"

text \<open>
  What the closure \<^verbatim>\<open>animate\<close> of one call of \<^verbatim>\<open>animateMarkerMovement\<close> has captured; an
  argument that is \<^verbatim>\<open>undefined\<close> computes like \<^verbatim>\<open>NaN\<close>. \<open>progress\<close> is
  \<^verbatim>\<open>Math.min(elapsed / duration, 1)\<close> and \<open>interpolate\<close> the position handed to
  \<^verbatim>\<open>marker.setLngLat\<close>.
\<close>

record animation =
  markerId :: string
  startLng :: number
  startLat :: number
  endLng :: number
  endLat :: number
  duration :: number
  startTime :: number

definition progress :: "animation \<Rightarrow> number \<Rightarrow> number" where
  "progress a currentTime =
     (let elapsed = fsub currentTime (startTime a)
      in fmin (fdiv elapsed (duration a)) (Finite 1))"

definition interpolate :: "animation \<Rightarrow> number \<Rightarrow> number \<times> number" where
  "interpolate a p =
     (let easeProgress = easeInOut p;
          currentLng = fadd (startLng a) (fmul (fsub (endLng a) (startLng a)) easeProgress);
          currentLat = fadd (startLat a) (fmul (fsub (endLat a) (startLat a)) easeProgress)
      in (currentLng, currentLat))"

text \<open>
  The state around the animations: the markers with their positions (\<^verbatim>\<open>markers.current\<close>),
  \<^verbatim>\<open>markerAnimations.current\<close>, the browser's list of requested animation frames (handle
  and callback, in request order) with the next handle it hands out (handles are positive),
  and the positions set so far, each with the run that set it. The path trace drawn along
  the way is left out (its calls into the map library are taken not to throw).
\<close>

record animator =
  markers :: "string \<rightharpoonup> number \<times> number"
  markerAnimations :: "string \<rightharpoonup> nat"
  frame_requests :: "(nat \<times> animation) list"
  next_request :: nat
  samples :: "(animation \<times> number \<times> number) list"

definition requestAnimationFrame :: "animation \<Rightarrow> animator \<Rightarrow> nat \<times> animator" where
  "requestAnimationFrame a st =
     (next_request st,
      st\<lparr> frame_requests := frame_requests st @ [(next_request st, a)],
          next_request := next_request st + 1 \<rparr>)"

definition cancelAnimationFrame :: "nat \<Rightarrow> animator \<Rightarrow> animator" where
  "cancelAnimationFrame h st =
     st\<lparr> frame_requests := filter (\<lambda>(i, a). i \<noteq> h) (frame_requests st) \<rparr>"

text \<open>
  The frame callback \<^verbatim>\<open>animate\<close> of a run. \<^verbatim>\<open>marker.setLngLat\<close> belongs to the map
  library, which is not part of the repository: \<open>accepts\<close> says which positions it takes, and
  for any other position it throws, which ends the callback before the marker has moved and
  before another frame is requested.
\<close>

definition animate :: "(number \<times> number \<Rightarrow> bool) \<Rightarrow> animation \<Rightarrow> number \<Rightarrow> animator \<Rightarrow> animator" where
  "animate accepts a currentTime st =
     (let p = progress a currentTime;
          (currentLng, currentLat) = interpolate a p
      in if \<not> accepts (currentLng, currentLat) then st
         else
           (let st1 = st\<lparr> markers := (if markers st (markerId a) = None then markers st
                                        else (markers st)(markerId a \<mapsto> (currentLng, currentLat))),
                          samples := samples st @ [(a, currentLng, currentLat)] \<rparr>
            in if fless p (Finite 1)
               then (let (h, st2) = requestAnimationFrame a st1
                     in st2\<lparr> markerAnimations := (markerAnimations st2)(markerId a \<mapsto> h) \<rparr>)
               else st1))"

text \<open>\<^verbatim>\<open>animateMarkerMovement\<close>; \<open>now\<close> is the time \<^verbatim>\<open>performance.now()\<close> returns, a finite
  number.\<close>

definition animateMarkerMovement ::
    "real \<Rightarrow> string \<Rightarrow> number \<Rightarrow> number \<Rightarrow> number \<Rightarrow> number \<Rightarrow> number \<Rightarrow> animator \<Rightarrow> animator" where
  "animateMarkerMovement now marker_id start_lng start_lat end_lng end_lat dur st =
     (if markers st marker_id = None then st
      else
        (let st1 = (case markerAnimations st marker_id of
                      Some h \<Rightarrow> cancelAnimationFrame h st
                    | None \<Rightarrow> st);
             a = \<lparr> markerId = marker_id, startLng = start_lng, startLat = start_lat,
                   endLng = end_lng, endLat = end_lat, duration = dur, startTime = Finite now \<rparr>;
             (h, st2) = requestAnimationFrame a st1
         in st2\<lparr> markerAnimations := (markerAnimations st2)(marker_id \<mapsto> h) \<rparr>))"

text \<open>A rendered frame runs the callbacks requested before it, in order, with its time
  stamp, a finite number; what they request is for the next frame.\<close>

fun run_callbacks ::
    "(number \<times> number \<Rightarrow> bool) \<Rightarrow> number \<Rightarrow> (nat \<times> animation) list \<Rightarrow> animator \<Rightarrow> animator" where
  "run_callbacks accepts currentTime [] st = st"
| "run_callbacks accepts currentTime ((h, a) # rest) st =
     run_callbacks accepts currentTime rest (animate accepts a currentTime st)"

definition frame :: "(number \<times> number \<Rightarrow> bool) \<Rightarrow> real \<Rightarrow> animator \<Rightarrow> animator" where
  "frame accepts currentTime st =
     run_callbacks accepts (Finite currentTime) (frame_requests st) (st\<lparr> frame_requests := [] \<rparr>)"

datatype animator_op =
    Animate real string number number number number number
  | Frame real

fun animator_step :: "(number \<times> number \<Rightarrow> bool) \<Rightarrow> animator_op \<Rightarrow> animator \<Rightarrow> animator" where
  "animator_step accepts (Animate now i slng slat elng elat d) st =
     animateMarkerMovement now i slng slat elng elat d st"
| "animator_step accepts (Frame t) st = frame accepts t st"

fun animator_run :: "(number \<times> number \<Rightarrow> bool) \<Rightarrow> animator_op list \<Rightarrow> animator \<Rightarrow> animator" where
  "animator_run accepts [] st = st"
| "animator_run accepts (operation # rest) st =
     animator_run accepts rest (animator_step accepts operation st)"

definition with_marker :: "string \<Rightarrow> number \<Rightarrow> number \<Rightarrow> animator" where
  "with_marker i x y =
     \<lparr> markers = [i \<mapsto> (x, y)], markerAnimations = Map.empty, frame_requests = [],
       next_request = 1, samples = [] \<rparr>"

text \<open>
  The positions mapbox-gl documents its \<^verbatim>\<open>LngLat\<close> to take: both coordinates numbers, the
  latitude between -90 and 90. Only the worked examples use it; every general property
  holds for any \<open>accepts\<close>.
\<close>

definition valid_LngLat :: "number \<times> number \<Rightarrow> bool" where
  "valid_LngLat = (\<lambda>(lng_value, lat_value).
     lng_value \<noteq> NaN \<and> lat_value \<noteq> NaN \<and>
     \<not> fless (Finite 90) lat_value \<and> \<not> fless lat_value (Finite (- 90)))"

text \<open>
  Notions for the properties of the animator: whether a run asks for another frame, the
  runs in flight for a marker, the run a call creates, what a call leaves of the requests
  after its cancellation, and the invariant that ties the requests to
  \<^verbatim>\<open>markerAnimations.current\<close>.
\<close>

definition continues :: "(number \<times> number \<Rightarrow> bool) \<Rightarrow> animation \<Rightarrow> number \<Rightarrow> bool" where
  "continues accepts a currentTime =
     (accepts (interpolate a (progress a currentTime)) \<and> fless (progress a currentTime) (Finite 1))"

definition runs_for :: "string \<Rightarrow> animator \<Rightarrow> animation list" where
  "runs_for i st = filter (\<lambda>a. markerId a = i) (map snd (frame_requests st))"

definition well_formed :: "animator \<Rightarrow> bool" where
  "well_formed st =
     (distinct (map fst (frame_requests st)) \<and>
      (\<forall>(h, a)\<in>set (frame_requests st).
          h < next_request st \<and> markerAnimations st (markerId a) = Some h))"

definition new_run :: "real \<Rightarrow> string \<Rightarrow> number \<Rightarrow> number \<Rightarrow> number \<Rightarrow> number \<Rightarrow> number \<Rightarrow> animation" where
  "new_run now i slng slat elng elat d =
     \<lparr> markerId = i, startLng = slng, startLat = slat, endLng = elng, endLat = elat,
       duration = d, startTime = Finite now \<rparr>"

definition cancelled :: "string \<Rightarrow> animator \<Rightarrow> (nat \<times> animation) list" where
  "cancelled i st =
     (case markerAnimations st i of
        Some h \<Rightarrow> filter (\<lambda>(k, a). k \<noteq> h) (frame_requests st)
      | None \<Rightarrow> frame_requests st)"

text \<open>Invariant of the frame loop: the callbacks still to run and those requested so far.\<close>

definition loop_inv :: "(nat \<times> animation) list \<Rightarrow> animator \<Rightarrow> bool" where
  "loop_inv rem st =
     (distinct (map fst (rem @ frame_requests st)) \<and>
      (\<forall>(h, a)\<in>set (rem @ frame_requests st).
          h < next_request st \<and> markerAnimations st (markerId a) = Some h))"

section \<open>Properties of the helpers\<close>

lemma findIndex_Some:
  "findIndex P xs = Some i \<Longrightarrow> i < length xs \<and> P (xs ! i) \<and> (\<forall>j<i. \<not> P (xs ! j))"
proof (induction xs arbitrary: i)
  case Nil
  then show ?case by simp
next
  case (Cons x xs)
  show ?case
  proof (cases "P x")
    case True
    with Cons.prems show ?thesis by simp
  next
    case False
    with Cons.prems obtain k where k: "findIndex P xs = Some k" "i = Suc k" by auto
    from Cons.IH[OF k(1)] False k(2) show ?thesis
      by (auto simp: less_Suc_eq_0_disj)
  qed
qed

lemma findIndex_None: "findIndex P xs = None \<longleftrightarrow> (\<forall>x\<in>set xs. \<not> P x)"
  by (induction xs) auto

lemma findIndex_ex: "(\<exists>x\<in>set xs. P x) \<Longrightarrow> \<exists>i. findIndex P xs = Some i"
  using findIndex_None[of P xs] by (cases "findIndex P xs") auto



lemma truthy_or_else: "truthy a \<Longrightarrow> Some (or_else a b) = a"
  by (cases a) (auto simp: or_else_def)

lemma not_truthy_or_else: "\<not> truthy a \<Longrightarrow> or_else a b = b"
  by (cases a) (auto simp: or_else_def)

lemma find_ex_Some: "\<exists>x\<in>set xs. P x \<Longrightarrow> \<exists>y. List.find P xs = Some y \<and> y \<in> set xs \<and> P y"
  by (induction xs) auto

lemma or_else_fresh:
  assumes "truthy a" "\<forall>d\<in>set drivers. Some (driver_id d) \<noteq> a"
  shows "or_else a b \<notin> driver_id ` set drivers"
proof
  assume "or_else a b \<in> driver_id ` set drivers"
  then obtain d where "d \<in> set drivers" "driver_id d = or_else a b" by auto
  with truthy_or_else[OF assms(1), of b] assms(2) show False by auto
qed

section \<open>Properties of the store\<close>

lemma spread_patch:
  "(spread old upd)\<lparr> prevLocation := Some (location old), lastUpdate := Some now \<rparr>
     = patch_spec old upd now"
  by (simp add: spread_def patch_spec_def)

lemma spread_patch_own_phone:
  "(spread old upd)\<lparr> phone := phone upd, prevLocation := Some (location old),
                      lastUpdate := Some now \<rparr>
     = (patch_spec old upd now)\<lparr> phone := phone upd \<rparr>"
  by (simp add: spread_def patch_spec_def)


lemma updateDriverLocation_miss:
  assumes "driver_id upd \<notin> driver_id ` set prev"
  shows "updateDriverLocation now upd prev =
           (prev @ [upd\<lparr> lastUpdate := Some now \<rparr>],
            [ToastSuccess (''New driver connected: '' @ name upd)])"
proof -
  have "findIndex (\<lambda>driver. driver_id driver = driver_id upd) prev = None"
    unfolding findIndex_None using assms by (metis imageI)
  then show ?thesis by (simp add: updateDriverLocation_def)
qed

lemma updateDriverLocation_own_phone_hit:
  assumes "driver_id upd \<in> driver_id ` set prev"
  shows "\<exists>i<length prev.
           driver_id (prev ! i) = driver_id upd \<and>
           (\<forall>j<i. driver_id (prev ! j) \<noteq> driver_id upd) \<and>
           updateDriverLocation_own_phone now upd prev
             = (prev[i := (patch_spec (prev ! i) upd now)\<lparr> phone := phone upd \<rparr>], [])"
proof -
  let ?P = "\<lambda>driver. driver_id driver = driver_id upd"
  from assms have "\<exists>x\<in>set prev. ?P x" by auto
  then obtain i where i: "findIndex ?P prev = Some i"
    using findIndex_ex[of prev ?P] by blast
  from findIndex_Some[OF i] have "i < length prev" "?P (prev ! i)" "\<forall>j<i. \<not> ?P (prev ! j)"
    by auto
  moreover have "updateDriverLocation_own_phone now upd prev
      = (prev[i := (patch_spec (prev ! i) upd now)\<lparr> phone := phone upd \<rparr>], [])"
    by (simp add: updateDriverLocation_own_phone_def i spread_patch_own_phone)
  ultimately show ?thesis by auto
qed

lemma updateDriverLocation_own_phone_miss:
  assumes "driver_id upd \<notin> driver_id ` set prev"
  shows "updateDriverLocation_own_phone now upd prev =
           (prev @ [upd\<lparr> lastUpdate := Some now \<rparr>],
            [ToastSuccess (''New driver connected: '' @ name upd)])"
proof -
  have "findIndex (\<lambda>driver. driver_id driver = driver_id upd) prev = None"
    unfolding findIndex_None using assms by (metis imageI)
  then show ?thesis by (simp add: updateDriverLocation_own_phone_def)
qed

lemma known_find:
  assumes "known data drivers"
  shows "\<exists>existing. List.find (\<lambda>d. Some (driver_id d) = m_id data) drivers = Some existing \<and>
           existing \<in> set drivers \<and> Some (driver_id existing) = m_id data"
proof -
  from assms have "\<exists>x\<in>set drivers. Some (driver_id x) = m_id data"
    unfolding known_def by force
  then show ?thesis
    using find_ex_Some[of drivers "\<lambda>d. Some (driver_id d) = m_id data"] by blast
qed

lemma processFlutterUpdate_existing:
  assumes "truthy (m_id data)"
      and "List.find (\<lambda>d. Some (driver_id d) = m_id data) drivers = Some existing"
  shows "processFlutterUpdate now data drivers prev =
           updateDriverLocation_own_phone now
            (existing
              \<lparr> location := \<lparr> lat = m_lat data, lng = m_lng data \<rparr>,
                name := or_else (m_name data) (name existing),
                phone := (if truthy (m_phone data) then m_phone data else phone existing),
                status := Active,
                lastUpdate := Some now \<rparr>)
            prev"
  using assms by (simp add: processFlutterUpdate_def)

lemma processFlutterUpdate_new:
  assumes "\<not> known data drivers"
  shows "processFlutterUpdate now data drivers prev =
          (prev @
             [\<lparr> driver_id = resolved_id now data,
                name = or_else (m_name data) ''Unknown Driver'',
                vehicle = ''Unknown Vehicle'',
                status = Active,
                location = \<lparr> lat = m_lat data, lng = m_lng data \<rparr>,
                prevLocation = None,
                phone = Some (or_else (m_phone data) ''Unknown''),
                currentDelivery = None,
                lastUpdate = Some now \<rparr>],
           [ToastSuccess (''New driver connected: '' @ or_else (m_name data) ''Unknown Driver'')])"
proof -
  have "truthy (m_id data) \<Longrightarrow> List.find (\<lambda>d. Some (driver_id d) = m_id data) drivers = None"
    using assms unfolding known_def find_None_iff by force
  then have "(if truthy (m_id data)
         then List.find (\<lambda>d. Some (driver_id d) = m_id data) drivers else None) = None"
    by simp
  then show ?thesis by (simp add: processFlutterUpdate_def resolved_id_def)
qed

lemma map_id_update:
  "i < length xs \<Longrightarrow> driver_id y = driver_id (xs ! i) \<Longrightarrow>
     map driver_id (xs[i := y]) = map driver_id xs"
  by (simp add: map_update list_update_same_conv)

lemma ids_updateDriverLocation_own_phone:
  assumes "distinct_ids prev"
  shows "distinct_ids (fst (updateDriverLocation_own_phone now upd prev))"
proof (cases "driver_id upd \<in> driver_id ` set prev")
  case True
  from updateDriverLocation_own_phone_hit[OF True, of now] obtain i where
    i: "i < length prev" "driver_id (prev ! i) = driver_id upd"
       "updateDriverLocation_own_phone now upd prev
          = (prev[i := (patch_spec (prev ! i) upd now)\<lparr> phone := phone upd \<rparr>], [])"
    by blast
  have "driver_id ((patch_spec (prev ! i) upd now)\<lparr> phone := phone upd \<rparr>) = driver_id (prev ! i)"
    using i(2) by (simp add: patch_spec_def)
  with i assms show ?thesis by (simp add: map_id_update distinct_ids_def)
next
  case False
  with assms show ?thesis
    by (simp add: updateDriverLocation_own_phone_miss distinct_ids_def)
qed

lemma ids_moveTick: "map driver_id (moveTick now rnd k drivers) = map driver_id drivers"
  by (induction drivers arbitrary: k) (auto simp: Let_def)

lemma ids_processFlutterUpdate:
  assumes "distinct_ids prev"
      and "known data drivers \<or> resolved_id now data \<notin> driver_id ` set prev"
  shows "distinct_ids (fst (processFlutterUpdate now data drivers prev))"
proof (cases "known data drivers")
  case True
  from known_find[OF True] obtain existing where
    e: "List.find (\<lambda>d. Some (driver_id d) = m_id data) drivers = Some existing"
    by blast
  from True have "truthy (m_id data)" by (simp add: known_def)
  from processFlutterUpdate_existing[OF this e] assms(1) show ?thesis
    by (simp add: ids_updateDriverLocation_own_phone)
next
  case False
  with assms(2) have fresh: "resolved_id now data \<notin> driver_id ` set prev" by simp
  have "map driver_id (fst (processFlutterUpdate now data drivers prev))
          = map driver_id prev @ [resolved_id now data]"
    unfolding processFlutterUpdate_new[OF False] by simp
  with assms(1) fresh show ?thesis
    by (simp add: distinct_ids_def)
qed

lemma onMessage_drivers_list:
  assumes "m_type data = Some ''drivers_list''" "m_drivers data = DriverArray ds"
  shows "onMessage now (JObject data) drivers prev = (Drivers ds, [])"
  using assms by (simp add: onMessage_def)

lemma onMessage_location_update:
  assumes "m_type data = Some ''driver_location_update''"
  shows "onMessage now (JObject data) drivers prev =
           (Drivers (fst (processFlutterUpdate now data drivers prev)),
            snd (processFlutterUpdate now data drivers prev))"
  using assms by (simp add: onMessage_def split: prod.splits)

lemma reconcile_distinct:
  assumes "distinct_ids prev" "admissible operation prev"
  shows "\<exists>after. reconcile operation prev = Drivers after \<and> distinct_ids after"
proof (cases operation)
  case (Tick now rnd)
  with assms(1) show ?thesis by (simp add: distinct_ids_def ids_moveTick)
next
  case (Message now drivers message)
  show ?thesis
  proof (cases message)
    case SyntaxError
    with Message assms(1) show ?thesis by (simp add: onMessage_def)
  next
    case JNull
    with Message assms(1) show ?thesis by (simp add: onMessage_def)
  next
    case (JObject data)
    show ?thesis
    proof (cases "m_type data = Some ''driver_location_update''")
      case True
      with assms Message JObject show ?thesis
        by (simp add: onMessage_location_update ids_processFlutterUpdate)
    next
      case False
      with assms Message JObject show ?thesis
        by (cases "m_drivers data") (auto simp: onMessage_def)
    qed
  qed
qed

lemma reconcile_all_append:
  "reconcile_all (xs @ ys) prev =
     (case reconcile_all xs prev of
        Drivers after \<Rightarrow> reconcile_all ys after
      | NoDriverList \<Rightarrow> NoDriverList)"
proof (induction xs arbitrary: prev)
  case Nil
  show ?case by simp
next
  case (Cons operation rest)
  show ?case
    by (cases "reconcile operation prev") (simp_all add: Cons.IH)
qed

lemma admissible_all_distinct:
  "distinct_ids prev \<Longrightarrow> admissible_all ops prev \<Longrightarrow>
     \<exists>after. reconcile_all ops prev = Drivers after \<and> distinct_ids after"
proof (induction ops arbitrary: prev)
  case Nil
  then show ?case by simp
next
  case (Cons operation rest)
  from Cons.prems have "admissible operation prev" by simp
  from reconcile_distinct[OF Cons.prems(1) this] obtain after where
    n: "reconcile operation prev = Drivers after" "distinct_ids after"
    by blast
  with Cons.prems have "admissible_all rest after" by simp
  from Cons.IH[OF n(2) this] n(1) show ?case by simp
qed

lemma admissible_all_take:
  "admissible_all ops prev \<Longrightarrow> admissible_all (take n ops) prev"
proof (induction ops arbitrary: prev n)
  case Nil
  then show ?case by simp
next
  case (Cons operation rest)
  show ?case
  proof (cases n)
    case 0
    then show ?thesis by simp
  next
    case (Suc k)
    from Cons.prems obtain after where
      n: "reconcile operation prev = Drivers after" "admissible_all rest after"
         "admissible operation prev"
      by (cases "reconcile operation prev") auto
    from Cons.IH[OF n(2), of k] n(1,3) Suc show ?thesis by simp
  qed
qed

lemma get_driver_absent: "i \<notin> driver_id ` set ds \<Longrightarrow> get_driver i ds = None"
  unfolding get_driver_def find_None_iff by blast

lemma new_driver_appended:
  assumes "\<not> known data drivers"
  shows "\<exists>d. processFlutterUpdate now data drivers prev =
              (prev @ [d],
               [ToastSuccess (''New driver connected: '' @ or_else (m_name data) ''Unknown Driver'')]) \<and>
           driver_id d = resolved_id now data \<and>
           name d = or_else (m_name data) ''Unknown Driver'' \<and>
           phone d = Some (or_else (m_phone data) ''Unknown'') \<and>
           location d = \<lparr> lat = m_lat data, lng = m_lng data \<rparr> \<and>
           status d = Active \<and> currentDelivery d = None \<and> lastUpdate d = Some now"
  unfolding processFlutterUpdate_new[OF assms] by simp

lemma known_driver_stored:
  assumes "known data drivers"
  shows "\<exists>d\<in>set (fst (processFlutterUpdate now data drivers prev)).
           Some (driver_id d) = m_id data \<and>
           location d = \<lparr> lat = m_lat data, lng = m_lng data \<rparr> \<and>
           status d = Active \<and> lastUpdate d = Some now"
proof -
  from known_find[OF assms] obtain existing where
    e: "List.find (\<lambda>d. Some (driver_id d) = m_id data) drivers = Some existing"
       "Some (driver_id existing) = m_id data"
    by blast
  define upd where "upd = existing
              \<lparr> location := \<lparr> lat = m_lat data, lng = m_lng data \<rparr>,
                name := or_else (m_name data) (name existing),
                phone := (if truthy (m_phone data) then m_phone data else phone existing),
                status := Active,
                lastUpdate := Some now \<rparr>"
  have u: "Some (driver_id upd) = m_id data" "location upd = \<lparr> lat = m_lat data, lng = m_lng data \<rparr>"
          "status upd = Active"
    using e(2) by (simp_all add: upd_def)
  from assms have "truthy (m_id data)" by (simp add: known_def)
  from processFlutterUpdate_existing[OF this e(1)]
  have p: "processFlutterUpdate now data drivers prev = updateDriverLocation_own_phone now upd prev"
    by (simp add: upd_def)
  show ?thesis
  proof (cases "driver_id upd \<in> driver_id ` set prev")
    case True
    from updateDriverLocation_own_phone_hit[OF True, of now] obtain i where
      i: "i < length prev"
         "updateDriverLocation_own_phone now upd prev
            = (prev[i := (patch_spec (prev ! i) upd now)\<lparr> phone := phone upd \<rparr>], [])"
      by blast
    define d where "d = (patch_spec (prev ! i) upd now)\<lparr> phone := phone upd \<rparr>"
    have "d \<in> set (prev[i := d])"
      using i(1) by (simp add: set_update_memI)
    moreover have "Some (driver_id d) = m_id data \<and>
           location d = \<lparr> lat = m_lat data, lng = m_lng data \<rparr> \<and>
           status d = Active \<and> lastUpdate d = Some now"
      using u by (simp add: d_def patch_spec_def)
    ultimately show ?thesis
      unfolding p i(2) d_def[symmetric] by auto
  next
    case False
    have "Some (driver_id (upd\<lparr> lastUpdate := Some now \<rparr>)) = m_id data \<and>
           location (upd\<lparr> lastUpdate := Some now \<rparr>) = \<lparr> lat = m_lat data, lng = m_lng data \<rparr> \<and>
           status (upd\<lparr> lastUpdate := Some now \<rparr>) = Active \<and>
           lastUpdate (upd\<lparr> lastUpdate := Some now \<rparr>) = Some now"
      using u by simp
    then show ?thesis
      unfolding p updateDriverLocation_own_phone_miss[OF False] by auto
  qed
qed

lemma updateDriverLocation_own_phone_same:
  assumes "phone upd \<noteq> None"
  shows "updateDriverLocation_own_phone now upd prev = updateDriverLocation now upd prev"
proof -
  have "(patch_spec old upd now)\<lparr> phone := phone upd \<rparr> = patch_spec old upd now" for old
    using assms by (auto simp: patch_spec_def)
  then show ?thesis
    by (simp add: updateDriverLocation_own_phone_def updateDriverLocation_def spread_patch
          spread_patch_own_phone split: option.splits)
qed

section \<open>Properties of the socket hook\<close>

lemma emit_simps [simp]:
  "effects (emit es h) = effects h @ es"
  "reconnectCount (emit es h) = reconnectCount h"
  "pending (emit es h) = pending h"
  "socket (emit es h) = socket h"
  "readyState (emit es h) = readyState h"
  "next_timer (emit es h) = next_timer h"
  "reconnectTimeoutRef (emit es h) = reconnectTimeoutRef h"
  by (simp_all add: emit_def)

lemma connect_count [simp]: "reconnectCount (connect props h) = reconnectCount h"
  by (simp add: connect_def)

lemma connect_scheduled [simp]: "scheduled (connect props h) = scheduled h"
  by (simp add: connect_def scheduled_def)

lemma connect_pending [simp]: "pending (connect props h) = pending h"
  by (simp add: connect_def)

lemma exhausted_not_establish:
  "exhausted_notice props \<noteq> ToastError ''Failed to establish WebSocket connection.''"
  by (simp add: exhausted_notice_def)

lemma connect_notices [simp]: "notices props (connect props' h) = notices props h"
  using exhausted_not_establish[of props]
  by (simp add: connect_def notices_def exhausted_notice_def)

lemma scheduled_pending [simp]: "scheduled (h\<lparr> pending := p \<rparr>) = scheduled h"
  by (simp add: scheduled_def)

lemma notices_pending [simp]: "notices props (h\<lparr> pending := p \<rparr>) = notices props h"
  by (simp add: notices_def)

lemma timeout_count [simp]: "reconnectCount (timeout props t h) = reconnectCount h"
  by (simp add: timeout_def)

lemma timeout_scheduled [simp]: "scheduled (timeout props t h) = scheduled h"
  by (simp add: timeout_def)

lemma timeout_notices [simp]: "notices props (timeout props' t h) = notices props h"
  by (simp add: timeout_def)

lemma cleanup_effects:
  "effects (cleanup h) =
     effects h @ (case reconnectTimeoutRef h of Some t \<Rightarrow> [ClearTimeout t] | None \<Rightarrow> [])
               @ (case socket h of Some r \<Rightarrow> [SocketClose] | None \<Rightarrow> [])"
  by (simp add: cleanup_def clearTimeout_def Let_def split: option.splits)

lemma cleanup_count [simp]: "reconnectCount (cleanup h) = reconnectCount h"
  by (simp add: cleanup_def clearTimeout_def Let_def split: option.splits)

lemma cleanup_scheduled [simp]: "scheduled (cleanup h) = scheduled h"
  unfolding scheduled_def cleanup_effects by (simp split: option.splits)

lemma cleanup_notices [simp]: "notices props (cleanup h) = notices props h"
  unfolding notices_def cleanup_effects by (simp add: exhausted_notice_def split: option.splits)

lemma render_count [simp]: "reconnectCount (render props h) = reconnectCount h"
  by (simp add: render_def)

lemma render_scheduled [simp]: "scheduled (render props h) = scheduled h"
  by (simp add: render_def)

lemma render_notices [simp]: "notices props (render props' h) = notices props h"
  by (simp add: render_def)

lemma onclose_replaced_simps [simp]:
  "reconnectCount (onclose_replaced props wasClean h) = reconnectCount (onclose props wasClean h)"
  "effects (onclose_replaced props wasClean h) = effects (onclose props wasClean h)"
  "pending (onclose_replaced props wasClean h) = pending (onclose props wasClean h)"
  "socket (onclose_replaced props wasClean h) = socket h"
  "scheduled (onclose_replaced props wasClean h) = scheduled (onclose props wasClean h)"
  "notices props' (onclose_replaced props wasClean h) = notices props' (onclose props wasClean h)"
  "created (onclose_replaced props wasClean h) = created (onclose props wasClean h)"
  by (simp_all add: onclose_replaced_def scheduled_def notices_def created_def)


















section \<open>Properties of the rounding\<close>

lemma bits_pos: "0 < n \<Longrightarrow> 0 < bits n"
  by (subst bits.simps) simp

lemma bits_lower: "0 < n \<Longrightarrow> 2 ^ (bits n - 1) \<le> n"
proof (induction n rule: bits.induct)
  case (1 n)
  show ?case
  proof (cases "n div 2 \<le> 0")
    case True
    with "1.prems" have "n = 1" by linarith
    then show ?thesis by (simp add: bits.simps)
  next
    case False
    then have p: "0 < n div 2" by simp
    with "1.IH" "1.prems" have ih: "2 ^ (bits (n div 2) - 1) \<le> n div 2" by simp
    from bits_pos[OF p] have "bits (n div 2) = Suc (bits (n div 2) - 1)" by simp
    moreover from "1.prems" have "bits n = Suc (bits (n div 2))"
      by (subst bits.simps) simp
    ultimately have "(2::int) ^ (bits n - 1) = 2 * 2 ^ (bits (n div 2) - 1)"
      by (metis diff_Suc_1 power_Suc)
    also have "\<dots> \<le> 2 * (n div 2)" using ih by simp
    also have "\<dots> \<le> n" by simp
    finally show ?thesis .
  qed
qed

lemma roundTiesToEven_ge_floor: "\<lfloor>s\<rfloor> \<le> roundTiesToEven s"
  by (simp add: roundTiesToEven_def Let_def)

lemma b64_ge_1:
  assumes "1 \<le> x"
  shows "1 \<le> b64 x"
proof -
  define n where "n = \<lfloor>\<bar>x\<bar>\<rfloor>"
  define e where "e = int (bits n) - 1"
  from assms have ax: "\<bar>x\<bar> = x" by simp
  from assms have n1: "0 < n" unfolding n_def ax by simp
  have nx: "of_int n \<le> x"
    unfolding n_def ax by simp
  from bits_pos[OF n1] have e0: "0 \<le> e" and ee: "nat e = bits n - 1"
    by (simp_all add: e_def)
  have "(2::int) ^ (bits n - 1) \<le> n"
    using bits_lower[OF n1] .
  then have "(of_int ((2::int) ^ (bits n - 1)) :: real) \<le> of_int n"
    by (simp only: of_int_le_iff)
  then have r: "(2::real) ^ (bits n - 1) \<le> of_int n"
    by simp
  have "(2::real) powi e = 2 ^ (bits n - 1)"
    using e0 ee by (simp add: power_int_def)
  with r nx have lo: "2 powi e \<le> x"
    by linarith
  have ex: "exponent x = e"
    using assms by (simp add: exponent_def e_def n_def)
  define q where "q = e - 52"
  have qmax: "max (exponent x - 52) (- 1074) = q"
    using e0 by (simp add: ex q_def)
  have pq: "0 < (2::real) powi q" by simp
  have "(2::real) powi e = 2 powi 52 * 2 powi q"
    unfolding q_def by (simp add: power_int_diff)
  with lo have "2 powi 52 * 2 powi q \<le> x" by simp
  then have "(2::real) powi 52 \<le> x / 2 powi q"
    using pq by (simp add: pos_le_divide_eq)
  then have "\<lfloor>(2::real) powi 52\<rfloor> \<le> \<lfloor>x / 2 powi q\<rfloor>"
    by (rule floor_mono)
  then have "(2::int) ^ 52 \<le> \<lfloor>x / 2 powi q\<rfloor>" by simp
  with roundTiesToEven_ge_floor[of "x / 2 powi q"]
  have "(2::int) ^ 52 \<le> roundTiesToEven (x / 2 powi q)" by linarith
  then have "(2::real) ^ 52 \<le> of_int (roundTiesToEven (x / 2 powi q))"
    by (metis of_int_le_iff of_int_numeral of_int_power)
  then have "(2::real) ^ 52 * 2 powi q \<le> of_int (roundTiesToEven (x / 2 powi q)) * 2 powi q"
    using pq by (simp add: mult_right_mono)
  moreover have "(2::real) ^ 52 * 2 powi q = 2 powi e"
    unfolding q_def by (simp add: power_int_diff)
  moreover have "(1::real) \<le> 2 powi e"
    using e0 by (simp add: power_int_def)
  ultimately have "(1::real) \<le> of_int (roundTiesToEven (x / 2 powi q)) * 2 powi q" by linarith
  moreover from assms have "x \<noteq> 0" by simp
  ultimately show ?thesis
    by (simp add: b64_def qmax Let_def)
qed

lemma round_number_not_NaN [simp]: "round_number z x \<noteq> NaN"
  by (simp add: round_number_def Let_def)

lemma round_number_ge_1:
  assumes "1 \<le> x"
  shows "round_number z x = PosInf \<or> (\<exists>r\<ge>1. round_number z x = Finite r)"
proof -
  from b64_ge_1[OF assms] have "1 \<le> b64 x" .
  with assms show ?thesis
    by (auto simp: round_number_def Let_def)
qed

lemma fmin_1_cases:
  assumes "q \<noteq> NaN"
  shows "fless (fmin q (Finite 1)) (Finite 1) \<or> fmin q (Finite 1) = Finite 1"
  using assms by (cases q) (auto simp: fmin_def fless_def)

lemma fmin_1_ge:
  assumes "q = PosInf \<or> (\<exists>r\<ge>1. q = Finite r)"
  shows "fmin q (Finite 1) = Finite 1"
  using assms by (auto simp: fmin_def fless_def)

lemma fdiv_finite_not_NaN:
  assumes "0 < d" "e \<noteq> NaN"
  shows "fdiv e (Finite d) \<noteq> NaN"
  using assms by (cases e) (auto simp: fdiv_def signed_inf_def)

lemma fsub_finite_not_NaN: "fsub (Finite t) (Finite s) \<noteq> NaN"
  by (simp add: fsub_def fadd_def)

lemma fless_irrefl [simp]: "\<not> fless a a"
  by (cases a) (simp_all add: fless_def)

lemma progress_cases:
  assumes "duration a = Finite d" "0 < d" "startTime a = Finite s"
  shows "fless (progress a (Finite t)) (Finite 1) \<or> progress a (Finite t) = Finite 1"
proof -
  have "fdiv (fsub (Finite t) (Finite s)) (Finite d) \<noteq> NaN"
    using assms(2) fsub_finite_not_NaN by (rule fdiv_finite_not_NaN)
  then show ?thesis
    unfolding progress_def Let_def assms(1,3) by (rule fmin_1_cases)
qed

lemma progress_final:
  assumes "duration a = Finite d" "0 < d" "fsub t (startTime a) = Finite el" "d \<le> el"
  shows "progress a t = Finite 1"
proof -
  from assms(2,4) have "1 \<le> el / d"
    by (simp add: pos_le_divide_eq)
  from round_number_ge_1[OF this]
  have "fdiv (Finite el) (Finite d) = PosInf \<or> (\<exists>r\<ge>1. fdiv (Finite el) (Finite d) = Finite r)"
    using assms(2) by (simp add: fdiv_def)
  then have "fmin (fdiv (Finite el) (Finite d)) (Finite 1) = Finite 1"
    by (rule fmin_1_ge)
  then show ?thesis
    by (simp add: progress_def Let_def assms(1,3))
qed

lemmas float_eval = b64_def exponent_def bits.simps roundTiesToEven_def Let_def

lemma round_number_small:
  assumes "b64 x = r" "r \<noteq> 0" "\<bar>r\<bar> \<le> 2 ^ 64"
  shows "round_number z x = Finite r"
proof -
  have "(2::real) ^ 64 \<le> max_finite"
    by (simp add: max_finite_def)
  with assms(3) have "\<not> max_finite < \<bar>r\<bar>" by linarith
  moreover from assms(1,2) have "x \<noteq> 0" by (auto simp: b64_def)
  ultimately show ?thesis using assms(1,2)
    by (simp add: round_number_def Let_def)
qed

lemma num_half: "num (1 / 2) = Finite (1 / 2)"
  unfolding num_def by (rule round_number_small) (simp_all add: float_eval)

lemma easeInOut_1: "easeInOut (Finite 1) = Finite 1"
proof -
  have a: "fmul (Finite 2) (Finite 1) = Finite 2"
    unfolding fmul_def by (simp, rule round_number_small) (simp_all add: float_eval)
  have b: "fsub (Finite 4) (Finite 2) = Finite 2"
    unfolding fsub_def fadd_def by (simp, rule round_number_small) (simp_all add: float_eval)
  have c: "fadd (Finite (- 1)) (Finite 2) = Finite 1"
    unfolding fadd_def by (simp, rule round_number_small) (simp_all add: float_eval)
  show ?thesis
    by (simp add: easeInOut_def num_half fless_def a b c)
qed

lemma round_number_same:
  assumes "round_number z x = Finite x" "x \<noteq> 0"
  shows "round_number z' x = Finite x"
  using assms by (simp add: round_number_def Let_def split: if_splits)

lemma final_exact:
  assumes "fsub (Finite e) (Finite s) = Finite (e - s)" "num e = Finite e"
  shows "fadd (Finite s) (fmul (fsub (Finite e) (Finite s)) (Finite 1)) = Finite e"
proof -
  from assms(1) have r: "round_number False (e - s) = Finite (e - s)"
    by (simp add: fsub_def fadd_def split: if_splits)
  have m: "fmul (Finite (e - s)) (Finite 1) = Finite (e - s)"
  proof (cases "e - s = 0")
    case True
    then show ?thesis by (simp add: fmul_def round_number_def)
  next
    case False
    from round_number_same[OF r False] show ?thesis by (simp add: fmul_def)
  qed
  have "fadd (Finite s) (Finite (e - s)) = Finite e"
    using assms(2) by (simp add: fadd_def num_def)
  with m show ?thesis unfolding assms(1) by simp
qed

lemma interpolate_final:
  "interpolate a (Finite 1) =
     (fadd (startLng a) (fmul (fsub (endLng a) (startLng a)) (Finite 1)),
      fadd (startLat a) (fmul (fsub (endLat a) (startLat a)) (Finite 1)))"
  by (simp add: interpolate_def Let_def easeInOut_1)

lemma interpolate_final_exact:
  assumes "startLng a = Finite slng" "endLng a = Finite elng"
          "fsub (endLng a) (startLng a) = Finite (elng - slng)" "num elng = Finite elng"
      and "startLat a = Finite slat" "endLat a = Finite elat"
          "fsub (endLat a) (startLat a) = Finite (elat - slat)" "num elat = Finite elat"
  shows "interpolate a (Finite 1) = (endLng a, endLat a)"
proof -
  have "fadd (Finite slng) (fmul (fsub (Finite elng) (Finite slng)) (Finite 1)) = Finite elng"
    using assms(3,4) unfolding assms(1,2) by (rule final_exact)
  moreover have "fadd (Finite slat) (fmul (fsub (Finite elat) (Finite slat)) (Finite 1)) = Finite elat"
    using assms(7,8) unfolding assms(5,6) by (rule final_exact)
  ultimately show ?thesis
    unfolding interpolate_final assms(1,2,5,6) by simp
qed

section \<open>Properties of the animator\<close>

lemma animate_rejected:
  "\<not> accepts (interpolate a (progress a t)) \<Longrightarrow> animate accepts a t st = st"
  by (simp add: animate_def Let_def split_def)

lemma animate_frame_requests:
  "frame_requests (animate accepts a t st)
     = frame_requests st @ (if continues accepts a t then [(next_request st, a)] else [])"
  by (simp add: animate_def continues_def requestAnimationFrame_def split_def Let_def)

lemma animate_next_request:
  "next_request (animate accepts a t st) = next_request st + (if continues accepts a t then 1 else 0)"
  by (simp add: animate_def continues_def requestAnimationFrame_def split_def Let_def)

lemma animate_markerAnimations:
  "markerAnimations (animate accepts a t st)
     = (if continues accepts a t then (markerAnimations st)(markerId a \<mapsto> next_request st)
        else markerAnimations st)"
  by (simp add: animate_def continues_def requestAnimationFrame_def split_def Let_def)

lemma animate_samples:
  "samples (animate accepts a t st)
     = samples st @ (if accepts (interpolate a (progress a t))
                     then [(a, interpolate a (progress a t))] else [])"
  by (simp add: animate_def requestAnimationFrame_def split_def Let_def)

lemma animate_markers_other:
  "i \<noteq> markerId a \<Longrightarrow> markers (animate accepts a t st) i = markers st i"
  by (simp add: animate_def requestAnimationFrame_def split_def Let_def)

lemma animate_markers_same:
  "markers st (markerId a) \<noteq> None \<Longrightarrow> accepts (interpolate a (progress a t)) \<Longrightarrow>
     markers (animate accepts a t st) (markerId a) = Some (interpolate a (progress a t))"
  by (simp add: animate_def requestAnimationFrame_def split_def Let_def)

lemma animate_markers_dom:
  "markers (animate accepts a t st) i = None \<longleftrightarrow> markers st i = None"
  by (simp add: animate_def requestAnimationFrame_def split_def Let_def)

lemma run_callbacks_frame_requests:
  "map snd (frame_requests (run_callbacks accepts t rem st))
     = map snd (frame_requests st) @ filter (\<lambda>a. continues accepts a t) (map snd rem)"
proof (induction rem arbitrary: st)
  case Nil
  then show ?case by simp
next
  case (Cons x rem)
  obtain h a where x: "x = (h, a)" by (cases x)
  show ?case unfolding x by (simp add: Cons.IH animate_frame_requests)
qed

lemma frame_runs: "map snd (frame_requests (frame accepts t st))
     = filter (\<lambda>a. continues accepts a (Finite t)) (map snd (frame_requests st))"
  by (simp add: frame_def run_callbacks_frame_requests)

lemma frame_runs_for:
  "runs_for i (frame accepts t st) = filter (\<lambda>a. continues accepts a (Finite t)) (runs_for i st)"
  unfolding runs_for_def frame_runs by (simp add: conj_commute)

lemma run_callbacks_markers_dom:
  "markers (run_callbacks accepts t rem st) i = None \<longleftrightarrow> markers st i = None"
proof (induction rem arbitrary: st)
  case Nil
  then show ?case by simp
next
  case (Cons x rem)
  obtain h a where x: "x = (h, a)" by (cases x)
  show ?case unfolding x by (simp add: Cons.IH animate_markers_dom)
qed

lemma run_callbacks_markers_none:
  assumes "filter (\<lambda>a. markerId a = i) (map snd rem) = []"
  shows "markers (run_callbacks accepts t rem st) i = markers st i"
  using assms
proof (induction rem arbitrary: st)
  case Nil
  then show ?case by simp
next
  case (Cons x rem)
  obtain h a where x: "x = (h, a)" by (cases x)
  from Cons.prems x have n: "markerId a \<noteq> i" and r: "filter (\<lambda>a. markerId a = i) (map snd rem) = []"
    by (auto split: if_splits)
  from n have "i \<noteq> markerId a" by blast
  then show ?case unfolding x by (simp add: Cons.IH[OF r] animate_markers_other)
qed

lemma run_callbacks_markers_sole:
  assumes "filter (\<lambda>a. markerId a = i) (map snd rem) = [a]"
      and "markers st i \<noteq> None" "accepts (interpolate a (progress a t))"
  shows "markers (run_callbacks accepts t rem st) i = Some (interpolate a (progress a t))"
  using assms
proof (induction rem arbitrary: st)
  case Nil
  then show ?case by simp
next
  case (Cons x rem)
  obtain h b where x: "x = (h, b)" by (cases x)
  show ?case
  proof (cases "markerId b = i")
    case True
    with Cons.prems(1) x have b: "b = a" and r: "filter (\<lambda>a. markerId a = i) (map snd rem) = []"
      by simp_all
    from True b Cons.prems(2,3)
    have "markers (animate accepts a t st) i = Some (interpolate a (progress a t))"
      using animate_markers_same[of st a accepts t] by simp
    with r show ?thesis unfolding x b by (simp add: run_callbacks_markers_none)
  next
    case False
    with Cons.prems(1) x have r: "filter (\<lambda>a. markerId a = i) (map snd rem) = [a]"
      by simp
    from False have "i \<noteq> markerId b" by blast
    then have m: "markers (animate accepts b t st) i \<noteq> None"
      using Cons.prems(2) by (simp add: animate_markers_other)
    show ?thesis unfolding x using Cons.IH[OF r m Cons.prems(3)] by simp
  qed
qed

lemma frame_markers_none:
  "runs_for i st = [] \<Longrightarrow> markers (frame accepts t st) i = markers st i"
  unfolding frame_def runs_for_def by (simp add: run_callbacks_markers_none)

lemma frame_markers_sole:
  "runs_for i st = [a] \<Longrightarrow> markers st i \<noteq> None \<Longrightarrow>
     accepts (interpolate a (progress a (Finite t))) \<Longrightarrow>
     markers (frame accepts t st) i = Some (interpolate a (progress a (Finite t)))"
  unfolding frame_def runs_for_def by (rule run_callbacks_markers_sole) simp_all

lemma run_callbacks_samples:
  "\<exists>new. samples (run_callbacks accepts t rem st) = samples st @ new \<and>
         fst ` set new \<subseteq> snd ` set rem"
proof (induction rem arbitrary: st)
  case Nil
  then show ?case by simp
next
  case (Cons x rem)
  obtain h a where x: "x = (h, a)" by (cases x)
  from Cons.IH[of "animate accepts a t st"] obtain new where
    n: "samples (run_callbacks accepts t rem (animate accepts a t st))
          = samples (animate accepts a t st) @ new"
       "fst ` set new \<subseteq> snd ` set rem"
    by blast
  let ?one = "if accepts (interpolate a (progress a t))
              then [(a, interpolate a (progress a t))] else []"
  have "samples (run_callbacks accepts t (x # rem) st) = samples st @ (?one @ new)"
    unfolding x using n(1) by (simp add: animate_samples)
  moreover have "fst ` set (?one @ new) \<subseteq> snd ` set (x # rem)"
    unfolding x using n(2) by auto
  ultimately show ?case by blast
qed

lemma frame_samples:
  "\<exists>new. samples (frame accepts t st) = samples st @ new \<and>
         fst ` set new \<subseteq> snd ` set (frame_requests st)"
  unfolding frame_def
  using run_callbacks_samples[of accepts "Finite t" "frame_requests st" "st\<lparr> frame_requests := [] \<rparr>"]
  by simp

lemma frame_markers_dom: "markers (frame accepts t st) i = None \<longleftrightarrow> markers st i = None"
  by (simp add: frame_def run_callbacks_markers_dom)

lemma frame_pending_subset:
  "snd ` set (frame_requests (frame accepts t st)) \<subseteq> snd ` set (frame_requests st)"
proof -
  have "set (map snd (frame_requests (frame accepts t st))) \<subseteq> set (map snd (frame_requests st))"
    unfolding frame_runs by auto
  then show ?thesis by simp
qed

lemma frames_samples:
  "\<exists>new. samples (animator_run accepts (map Frame ts) st) = samples st @ new \<and>
         fst ` set new \<subseteq> snd ` set (frame_requests st)"
proof (induction ts arbitrary: st)
  case Nil
  then show ?case by simp
next
  case (Cons t ts)
  from frame_samples[of accepts t st] obtain n1 where
    n1: "samples (frame accepts t st) = samples st @ n1"
        "fst ` set n1 \<subseteq> snd ` set (frame_requests st)"
    by blast
  from Cons.IH[of "frame accepts t st"] obtain n2 where
    n2: "samples (animator_run accepts (map Frame ts) (frame accepts t st))
           = samples (frame accepts t st) @ n2"
        "fst ` set n2 \<subseteq> snd ` set (frame_requests (frame accepts t st))"
    by blast
  from n2(2) frame_pending_subset[of accepts t st]
  have "fst ` set n2 \<subseteq> snd ` set (frame_requests st)" by blast
  with n1(2) have "fst ` set (n1 @ n2) \<subseteq> snd ` set (frame_requests st)" by auto
  moreover have "samples (animator_run accepts (map Frame (t # ts)) st) = samples st @ (n1 @ n2)"
    using n1(1) n2(1) by simp
  ultimately show ?case by blast
qed

lemma loop_inv_step:
  assumes "loop_inv ((h, a) # rem) st"
  shows "loop_inv rem (animate accepts a t st)"
proof (cases "continues accepts a t")
  case False
  with assms show ?thesis
    by (simp add: loop_inv_def animate_frame_requests animate_next_request animate_markerAnimations)
next
  case True
  let ?n = "next_request st"
  define S where "S = set (rem @ frame_requests st)"
  from assms have d: "distinct (map fst (rem @ frame_requests st))"
    and hn: "h \<notin> fst ` S"
    and a: "markerAnimations st (markerId a) = Some h"
    and all: "\<forall>(k, b)\<in>S. k < ?n \<and> markerAnimations st (markerId b) = Some k"
    by (auto simp: loop_inv_def S_def)
  have fresh: "?n \<notin> fst ` S"
  proof
    assume "?n \<in> fst ` S"
    then obtain b where "(?n, b) \<in> S" by force
    with all have "?n < ?n" by blast
    then show False by simp
  qed
  have other: "markerId b \<noteq> markerId a" if "(k, b) \<in> S" for k b
  proof
    assume "markerId b = markerId a"
    with that all a have "k = h" by fastforce
    with that hn show False by force
  qed
  have "distinct (map fst (rem @ frame_requests st @ [(?n, a)]))"
    using d fresh by (auto simp: S_def)
  moreover have "\<forall>(k, b)\<in>set (rem @ frame_requests st @ [(?n, a)]).
          k < ?n + 1 \<and> ((markerAnimations st)(markerId a \<mapsto> ?n)) (markerId b) = Some k"
  proof (clarify)
    fix k b
    assume m: "(k, b) \<in> set (rem @ frame_requests st @ [(?n, a)])"
    show "k < ?n + 1 \<and> ((markerAnimations st)(markerId a \<mapsto> ?n)) (markerId b) = Some k"
    proof (cases "(k, b) = (?n, a)")
      case True
      then show ?thesis by simp
    next
      case False
      with m have i: "(k, b) \<in> S" by (auto simp: S_def)
      from other[OF i] all i show ?thesis by fastforce
    qed
  qed
  ultimately show ?thesis
    using True
    by (simp add: loop_inv_def animate_frame_requests animate_next_request animate_markerAnimations)
qed

lemma loop_inv_run:
  "loop_inv rem st \<Longrightarrow> loop_inv [] (run_callbacks accepts t rem st)"
proof (induction rem arbitrary: st)
  case Nil
  then show ?case by simp
next
  case (Cons x rem)
  obtain h a where x: "x = (h, a)" by (cases x)
  from Cons.prems x have "loop_inv rem (animate accepts a t st)" by (simp add: loop_inv_step)
  then show ?case unfolding x by (simp add: Cons.IH)
qed

lemma well_formed_loop_inv: "well_formed st = loop_inv [] st"
  by (simp add: well_formed_def loop_inv_def)

lemma well_formed_frame:
  assumes "well_formed st"
  shows "well_formed (frame accepts t st)"
proof -
  from assms have "loop_inv (frame_requests st) (st\<lparr> frame_requests := [] \<rparr>)"
    by (simp add: well_formed_def loop_inv_def)
  then show ?thesis unfolding frame_def well_formed_loop_inv by (rule loop_inv_run)
qed

lemma cancel_simps [simp]:
  "frame_requests (cancelAnimationFrame h st) = filter (\<lambda>(k, a). k \<noteq> h) (frame_requests st)"
  "next_request (cancelAnimationFrame h st) = next_request st"
  "markerAnimations (cancelAnimationFrame h st) = markerAnimations st"
  "markers (cancelAnimationFrame h st) = markers st"
  "samples (cancelAnimationFrame h st) = samples st"
  by (simp_all add: cancelAnimationFrame_def)

lemma animateMarkerMovement_effect:
  assumes "markers st i \<noteq> None"
  shows "frame_requests (animateMarkerMovement now i slng slat elng elat d st)
           = cancelled i st @ [(next_request st, new_run now i slng slat elng elat d)]"
    and "next_request (animateMarkerMovement now i slng slat elng elat d st) = next_request st + 1"
    and "markerAnimations (animateMarkerMovement now i slng slat elng elat d st)
           = (markerAnimations st)(i \<mapsto> next_request st)"
    and "markers (animateMarkerMovement now i slng slat elng elat d st) = markers st"
    and "samples (animateMarkerMovement now i slng slat elng elat d st) = samples st"
  using assms
  by (auto simp: animateMarkerMovement_def requestAnimationFrame_def cancelled_def new_run_def
        Let_def split: option.splits)

lemma animateMarkerMovement_no_marker:
  "markers st i = None \<Longrightarrow> animateMarkerMovement now i slng slat elng elat d st = st"
  by (simp add: animateMarkerMovement_def)

lemma cancelled_subset: "set (cancelled i st) \<subseteq> set (frame_requests st)"
  by (auto simp: cancelled_def split: option.splits)

lemma cancelled_distinct:
  "distinct (map fst (frame_requests st)) \<Longrightarrow> distinct (map fst (cancelled i st))"
  by (auto simp: cancelled_def distinct_map_filter split: option.splits)

lemma cancelled_none_for:
  assumes "well_formed st" "(k, b) \<in> set (cancelled i st)"
  shows "markerId b \<noteq> i"
proof
  assume m: "markerId b = i"
  from assms(2) cancelled_subset have "(k, b) \<in> set (frame_requests st)" by blast
  with assms(1) m have s: "markerAnimations st i = Some k"
    by (auto simp: well_formed_def)
  with assms(2) show False by (simp add: cancelled_def)
qed

lemma well_formed_animateMarkerMovement:
  assumes "well_formed st"
  shows "well_formed (animateMarkerMovement now i slng slat elng elat d st)"
proof (cases "markers st i = None")
  case True
  with assms show ?thesis by (simp add: animateMarkerMovement_no_marker)
next
  case False
  note e = animateMarkerMovement_effect[OF False, of now slng slat elng elat d]
  let ?n = "next_request st"
  from assms have d0: "distinct (map fst (frame_requests st))"
    and all: "\<forall>(k, b)\<in>set (frame_requests st). k < ?n \<and> markerAnimations st (markerId b) = Some k"
    by (simp_all add: well_formed_def)
  have fresh: "?n \<notin> fst ` set (cancelled i st)"
  proof
    assume "?n \<in> fst ` set (cancelled i st)"
    then obtain b where "(?n, b) \<in> set (cancelled i st)" by force
    with cancelled_subset have "(?n, b) \<in> set (frame_requests st)" by blast
    with all have "?n < ?n" by blast
    then show False by simp
  qed
  have "distinct (map fst (cancelled i st @ [(?n, new_run now i slng slat elng elat d)]))"
    using cancelled_distinct[OF d0, of i] fresh by simp
  moreover have "\<forall>(k, b)\<in>set (cancelled i st @ [(?n, new_run now i slng slat elng elat d)]).
          k < ?n + 1 \<and> ((markerAnimations st)(i \<mapsto> ?n)) (markerId b) = Some k"
  proof (clarify)
    fix k b
    assume m: "(k, b) \<in> set (cancelled i st @ [(?n, new_run now i slng slat elng elat d)])"
    show "k < ?n + 1 \<and> ((markerAnimations st)(i \<mapsto> ?n)) (markerId b) = Some k"
    proof (cases "(k, b) \<in> set (cancelled i st)")
      case True
      from cancelled_none_for[OF assms True] have "markerId b \<noteq> i" .
      moreover from True cancelled_subset have "(k, b) \<in> set (frame_requests st)" by blast
      ultimately show ?thesis using all by fastforce
    next
      case False
      with m have "k = ?n" "b = new_run now i slng slat elng elat d" by simp_all
      then show ?thesis by (simp add: new_run_def)
    qed
  qed
  ultimately show ?thesis
    unfolding well_formed_def e by blast
qed

lemma runs_for_animateMarkerMovement:
  assumes "well_formed st" "markers st i \<noteq> None"
  shows "runs_for i (animateMarkerMovement now i slng slat elng elat d st)
           = [new_run now i slng slat elng elat d]"
proof -
  have "markerId a \<noteq> i" if "a \<in> set (map snd (cancelled i st))" for a
  proof -
    from that obtain k where "(k, a) \<in> set (cancelled i st)" by force
    then show ?thesis by (rule cancelled_none_for[OF assms(1)])
  qed
  then have "filter (\<lambda>a. markerId a = i) (map snd (cancelled i st)) = []"
    unfolding filter_empty_conv by blast
  then show ?thesis
    unfolding runs_for_def animateMarkerMovement_effect(1)[OF assms(2)]
    by (simp add: new_run_def)
qed

lemma well_formed_step: "well_formed st \<Longrightarrow> well_formed (animator_step accepts operation st)"
  by (cases operation) (simp_all add: well_formed_animateMarkerMovement well_formed_frame)

lemma well_formed_run: "well_formed st \<Longrightarrow> well_formed (animator_run accepts ops st)"
  by (induction ops arbitrary: st) (simp_all add: well_formed_step)

lemma well_formed_one_run:
  assumes "well_formed st"
  shows "length (runs_for i st) \<le> 1"
proof -
  have inj: "a = b \<and> h = k"
    if "(h, a) \<in> set (frame_requests st)" "(k, b) \<in> set (frame_requests st)"
       "markerId a = i" "markerId b = i" for h k a b
  proof -
    from assms have all: "\<forall>(h, a)\<in>set (frame_requests st).
        h < next_request st \<and> markerAnimations st (markerId a) = Some h"
      by (simp add: well_formed_def)
    from all that(1) have "markerAnimations st (markerId a) = Some h" by blast
    moreover from all that(2) have "markerAnimations st (markerId b) = Some k" by blast
    ultimately have hk: "h = k" using that(3,4) by simp
    from assms have "distinct (map fst (frame_requests st))" by (simp add: well_formed_def)
    with that(1,2) hk show ?thesis by (metis eq_key_imp_eq_value)
  qed
  show ?thesis
  proof (rule ccontr)
    assume "\<not> length (runs_for i st) \<le> 1"
    then have "2 \<le> length (filter (\<lambda>(h, a). markerId a = i) (frame_requests st))"
      by (simp add: runs_for_def filter_map comp_def split_def)
    then obtain x y zs where
      xy: "filter (\<lambda>(h, a). markerId a = i) (frame_requests st) = x # y # zs"
      by (metis One_nat_def Suc_1 Suc_le_length_iff)
    obtain h a k b where x: "x = (h, a)" and y: "y = (k, b)" by (cases x, cases y) auto
    have "x \<in> set (filter (\<lambda>(h, a). markerId a = i) (frame_requests st))"
         "y \<in> set (filter (\<lambda>(h, a). markerId a = i) (frame_requests st))"
      unfolding xy by simp_all
    then have "(h, a) \<in> set (frame_requests st)" "(k, b) \<in> set (frame_requests st)"
      "markerId a = i" "markerId b = i"
      unfolding x y by simp_all
    from inj[OF this] have "x = y" unfolding x y by simp
    moreover have "distinct (filter (\<lambda>(h, a). markerId a = i) (frame_requests st))"
      using assms by (simp add: well_formed_def distinct_map distinct_filter)
    ultimately show False unfolding xy by simp
  qed
qed

lemma frame_keeps_run:
  assumes "fless (progress a (Finite t)) (Finite 1) \<or> progress a (Finite t) = Finite 1"
      and "accepts (interpolate a (progress a (Finite t)))"
      and "markers st i \<noteq> None"
      and "runs_for i st = [a] \<or>
           (runs_for i st = [] \<and> markers st i = Some (interpolate a (Finite 1)))"
  shows "markers (frame accepts t st) i \<noteq> None \<and>
         (runs_for i (frame accepts t st) = [a] \<or>
          (runs_for i (frame accepts t st) = [] \<and>
           markers (frame accepts t st) i = Some (interpolate a (Finite 1))))"
proof (cases "runs_for i st = [a]")
  case True
  have m: "markers (frame accepts t st) i = Some (interpolate a (progress a (Finite t)))"
    using True assms(3,2) by (rule frame_markers_sole)
  have r: "runs_for i (frame accepts t st)
             = (if fless (progress a (Finite t)) (Finite 1) then [a] else [])"
    unfolding frame_runs_for True using assms(2) by (simp add: continues_def)
  show ?thesis
  proof (cases "fless (progress a (Finite t)) (Finite 1)")
    case True
    with m r show ?thesis by simp
  next
    case False
    with assms(1) have "progress a (Finite t) = Finite 1" by simp
    with m r show ?thesis by simp
  qed
next
  case False
  with assms(4) have e: "runs_for i st = []" "markers st i = Some (interpolate a (Finite 1))"
    by simp_all
  from e(1) have "runs_for i (frame accepts t st) = []" unfolding frame_runs_for by simp
  moreover from e have "markers (frame accepts t st) i = Some (interpolate a (Finite 1))"
    by (simp add: frame_markers_none)
  ultimately show ?thesis by simp
qed

lemma frames_keep_run:
  assumes "\<forall>t\<in>set ts. (fless (progress a (Finite t)) (Finite 1) \<or> progress a (Finite t) = Finite 1) \<and>
                       accepts (interpolate a (progress a (Finite t)))"
      and "markers st i \<noteq> None"
      and "runs_for i st = [a] \<or>
           (runs_for i st = [] \<and> markers st i = Some (interpolate a (Finite 1)))"
  shows "markers (animator_run accepts (map Frame ts) st) i \<noteq> None \<and>
         (runs_for i (animator_run accepts (map Frame ts) st) = [a] \<or>
          (runs_for i (animator_run accepts (map Frame ts) st) = [] \<and>
           markers (animator_run accepts (map Frame ts) st) i = Some (interpolate a (Finite 1))))"
  using assms
proof (induction ts arbitrary: st)
  case Nil
  then show ?case by simp
next
  case (Cons t ts)
  from Cons.prems(1) have
    t: "fless (progress a (Finite t)) (Finite 1) \<or> progress a (Finite t) = Finite 1"
       "accepts (interpolate a (progress a (Finite t)))"
    and r: "\<forall>t\<in>set ts. (fless (progress a (Finite t)) (Finite 1) \<or> progress a (Finite t) = Finite 1) \<and>
                       accepts (interpolate a (progress a (Finite t)))"
    by simp_all
  from frame_keeps_run[where accepts=accepts, OF t Cons.prems(2,3)]
  have "markers (frame accepts t st) i \<noteq> None"
       "runs_for i (frame accepts t st) = [a] \<or>
          (runs_for i (frame accepts t st) = [] \<and>
           markers (frame accepts t st) i = Some (interpolate a (Finite 1)))"
    by simp_all
  from Cons.IH[OF r this] show ?case by simp
qed

lemma frame_ends_run:
  assumes "progress a (Finite t) = Finite 1" "accepts (interpolate a (Finite 1))"
      and "markers st i \<noteq> None"
      and "runs_for i st = [a] \<or>
           (runs_for i st = [] \<and> markers st i = Some (interpolate a (Finite 1)))"
  shows "runs_for i (frame accepts t st) = [] \<and>
         markers (frame accepts t st) i = Some (interpolate a (Finite 1))"
proof (cases "runs_for i st = [a]")
  case True
  from assms(1,2) have acc: "accepts (interpolate a (progress a (Finite t)))" by simp
  have "markers (frame accepts t st) i = Some (interpolate a (progress a (Finite t)))"
    using True assms(3) acc by (rule frame_markers_sole)
  moreover have "runs_for i (frame accepts t st) = []"
    unfolding frame_runs_for True by (simp add: continues_def assms(1))
  ultimately show ?thesis by (simp add: assms(1))
next
  case False
  with assms(4) have e: "runs_for i st = []" "markers st i = Some (interpolate a (Finite 1))"
    by simp_all
  from e(1) have "runs_for i (frame accepts t st) = []" unfolding frame_runs_for by simp
  moreover from e have "markers (frame accepts t st) i = Some (interpolate a (Finite 1))"
    by (simp add: frame_markers_none)
  ultimately show ?thesis by simp
qed

lemma second_call_runs_to_end:
  assumes "well_formed st" "markers st i \<noteq> None"
      and "d = Finite dd" "0 < dd" "fsub (Finite t) (Finite now) = Finite el" "dd \<le> el"
      and "\<forall>u\<in>set ts. accepts (interpolate (new_run now i slng slat elng elat d)
                                  (progress (new_run now i slng slat elng elat d) (Finite u)))"
      and "accepts (interpolate (new_run now i slng slat elng elat d) (Finite 1))"
  shows "runs_for i (frame accepts t (animator_run accepts (map Frame ts)
                             (animateMarkerMovement now i slng slat elng elat d st))) = []"
    and "markers (frame accepts t (animator_run accepts (map Frame ts)
                             (animateMarkerMovement now i slng slat elng elat d st))) i
                 = Some (interpolate (new_run now i slng slat elng elat d) (Finite 1))"
proof -
  let ?a = "new_run now i slng slat elng elat d"
  let ?st = "animateMarkerMovement now i slng slat elng elat d st"
  have da: "duration ?a = Finite dd" "startTime ?a = Finite now"
    using assms(3) by (simp_all add: new_run_def)
  have p1: "progress ?a (Finite t) = Finite 1"
    using da(1) assms(4) _ assms(6) by (rule progress_final) (simp add: da(2) assms(5))
  have pc: "\<forall>u\<in>set ts. (fless (progress ?a (Finite u)) (Finite 1) \<or> progress ?a (Finite u) = Finite 1) \<and>
                       accepts (interpolate ?a (progress ?a (Finite u)))"
    using assms(7) progress_cases[OF da(1) assms(4) da(2)] by blast
  have r: "runs_for i ?st = [?a]"
    using assms(1,2) by (rule runs_for_animateMarkerMovement)
  have m': "markers ?st i \<noteq> None"
    using assms(2) by (simp add: animateMarkerMovement_effect[OF assms(2)])
  from r have r': "runs_for i ?st = [?a] \<or>
      (runs_for i ?st = [] \<and> markers ?st i = Some (interpolate ?a (Finite 1)))" by simp
  from frames_keep_run[where accepts=accepts, OF pc m' r']
  have k: "markers (animator_run accepts (map Frame ts) ?st) i \<noteq> None"
          "runs_for i (animator_run accepts (map Frame ts) ?st) = [?a] \<or>
           (runs_for i (animator_run accepts (map Frame ts) ?st) = [] \<and>
            markers (animator_run accepts (map Frame ts) ?st) i = Some (interpolate ?a (Finite 1)))"
    by simp_all
  from frame_ends_run[where accepts=accepts, OF p1 assms(8) k]
  show "runs_for i (frame accepts t (animator_run accepts (map Frame ts) ?st)) = []"
       "markers (frame accepts t (animator_run accepts (map Frame ts) ?st)) i
          = Some (interpolate ?a (Finite 1))"
    by simp_all
qed

lemma second_call_samples:
  assumes "well_formed st" "markers st i \<noteq> None"
  shows "\<exists>new. samples (animator_run accepts (map Frame ts)
                             (animateMarkerMovement now i slng slat elng elat d st))
                      = samples st @ new \<and>
                   (\<forall>(a, p)\<in>set new. markerId a = i \<longrightarrow> a = new_run now i slng slat elng elat d)"
proof -
  let ?a = "new_run now i slng slat elng elat d"
  let ?st = "animateMarkerMovement now i slng slat elng elat d st"
  have r: "runs_for i ?st = [?a]"
    using assms by (rule runs_for_animateMarkerMovement)
  from frames_samples[of accepts ts ?st] obtain new where
    n: "samples (animator_run accepts (map Frame ts) ?st) = samples ?st @ new"
       "fst ` set new \<subseteq> snd ` set (frame_requests ?st)"
    by blast
  have "a = ?a" if "(a, p) \<in> set new" "markerId a = i" for a p
  proof -
    from that(1) n(2) have "a \<in> snd ` set (frame_requests ?st)" by force
    with that(2) have "a \<in> set (runs_for i ?st)" by (simp add: runs_for_def)
    with r show ?thesis by simp
  qed
  then have "\<forall>(a, p)\<in>set new. markerId a = i \<longrightarrow> a = ?a" by blast
  moreover have "samples (animator_run accepts (map Frame ts) ?st) = samples st @ new"
    using n(1) by (simp add: animateMarkerMovement_effect[OF assms(2)])
  ultimately show ?thesis by blast
qed

lemma run_callbacks_markers_rejected:
  assumes "filter (\<lambda>a. markerId a = i) (map snd rem) = [a]"
      and "\<not> accepts (interpolate a (progress a t))"
  shows "markers (run_callbacks accepts t rem st) i = markers st i"
  using assms(1)
proof (induction rem arbitrary: st)
  case Nil
  then show ?case by simp
next
  case (Cons x rem)
  obtain h b where x: "x = (h, b)" by (cases x)
  show ?case
  proof (cases "markerId b = i")
    case True
    with Cons.prems x have b: "b = a" and r: "filter (\<lambda>a. markerId a = i) (map snd rem) = []"
      by simp_all
    from assms(2) have "animate accepts a t st = st" by (rule animate_rejected)
    with r show ?thesis unfolding x b by (simp add: run_callbacks_markers_none)
  next
    case False
    with Cons.prems x have r: "filter (\<lambda>a. markerId a = i) (map snd rem) = [a]"
      by simp
    from False have "i \<noteq> markerId b" by blast
    then have m: "markers (animate accepts b t st) i = markers st i"
      by (rule animate_markers_other)
    show ?thesis unfolding x using Cons.IH[OF r, of "animate accepts b t st"] m by simp
  qed
qed

lemma rejected_run_stays:
  assumes "well_formed st" "markers st i \<noteq> None"
      and "\<not> accepts (interpolate (new_run now i slng slat elng elat d)
                         (progress (new_run now i slng slat elng elat d) (Finite t)))"
  shows "runs_for i (frame accepts t (animateMarkerMovement now i slng slat elng elat d st)) = []"
    and "markers (frame accepts t (animateMarkerMovement now i slng slat elng elat d st)) i
           = markers st i"
proof -
  let ?a = "new_run now i slng slat elng elat d"
  let ?st = "animateMarkerMovement now i slng slat elng elat d st"
  have r: "runs_for i ?st = [?a]"
    using assms(1,2) by (rule runs_for_animateMarkerMovement)
  show "runs_for i (frame accepts t ?st) = []"
    unfolding frame_runs_for r using assms(3) by (simp add: continues_def)
  have "markers (frame accepts t ?st) i = markers (?st\<lparr> frame_requests := [] \<rparr>) i"
    unfolding frame_def using r[unfolded runs_for_def] assms(3)
    by (rule run_callbacks_markers_rejected)
  then show "markers (frame accepts t ?st) i = markers st i"
    by (simp add: animateMarkerMovement_effect[OF assms(2)])
qed

section \<open>Claims\<close>



text \<open>The same scenario through the message handler, rendered with the seed: the translated
  update for driver 1 reaches the updater and gives the same two locations.\<close>

lemma translated_patch_scenario:
  "map_option (\<lambda>d. (prevLocation d, location d, lastUpdate d))
     (get_driver ''1'' (records (fst (onMessage 7
        (JObject (FlutterDriverUpdate (Some (num 33.3252)) (Some (num 44.3761)) None None (Some ''1'')))
        (mockDrivers 0 (\<lambda>t. [])) (mockDrivers 0 (\<lambda>t. []))))))
   = Some (Some \<lparr> lat = Some (num 33.3152), lng = Some (num 44.3661) \<rparr>,
           \<lparr> lat = Some (num 33.3252), lng = Some (num 44.3761) \<rparr>, Some 7)"
  by (simp add: onMessage_def FlutterDriverUpdate_def processFlutterUpdate_def mockDrivers_def Let_def
        updateDriverLocation_own_phone_def spread_def get_driver_def or_else_def)

text \<open>
  C10 (as amended). The staleness check is false when the driver has no \<^verbatim>\<open>lastUpdate\<close> and
  also when \<^verbatim>\<open>lastUpdate\<close> is 0; for any other time stamp it is true exactly when
  \<open>now - lastUpdate > 120000\<close>: false at a difference of exactly 120000, and once true it stays
  true as \<open>now\<close> grows.
\<close>

theorem isDriverStale_threshold:
  "(lastUpdate driver = None \<longrightarrow> \<not> isDriverStale now driver) \<and>
   (lastUpdate driver = Some 0 \<longrightarrow> \<not> isDriverStale now driver) \<and>
   (\<forall>t. lastUpdate driver = Some t \<and> t \<noteq> 0 \<longrightarrow>
        (isDriverStale now driver \<longleftrightarrow> now - t > 120000) \<and>
        (now - t = 120000 \<longrightarrow> \<not> isDriverStale now driver) \<and>
        (\<forall>now'. now \<le> now' \<and> isDriverStale now driver \<longrightarrow> isDriverStale now' driver))"
  by (auto simp: isDriverStale_def)

theorem isDriverStale_threshold_witness:
  "lastUpdate (mockDrivers 1000000 (\<lambda>t. []) ! 2) = Some 820000 \<and>
   isDriverStale 1000000 (mockDrivers 1000000 (\<lambda>t. []) ! 2) \<and>
   \<not> isDriverStale 940000 (mockDrivers 1000000 (\<lambda>t. []) ! 2) \<and>
   isDriverStale 1000001 (mockDrivers 1000000 (\<lambda>t. []) ! 2)"
proof -
  let ?d = "mockDrivers 1000000 (\<lambda>t. []) ! 2"
  have l: "lastUpdate ?d = Some 820000"
    by (simp add: mockDrivers_def Let_def)
  from isDriverStale_threshold[of ?d 1000000] l
  have a: "isDriverStale 1000000 ?d" "isDriverStale 1000001 ?d" by auto
  from isDriverStale_threshold[of ?d 940000] l
  have b: "\<not> isDriverStale 940000 ?d" by auto
  from l a b show ?thesis by simp
qed

text \<open>C10 as stated fails for a driver whose \<^verbatim>\<open>lastUpdate\<close> is 0: the time stamp is there,
  200000 ms have passed, and the check says not stale.\<close>

theorem isDriverStale_zero_counterexample:
  "lastUpdate ((mockDrivers 0 (\<lambda>t. []) ! 2)\<lparr> lastUpdate := Some 0 \<rparr>) = Some 0 \<and>
   (200000::int) - 0 > 120000 \<and>
   \<not> isDriverStale 200000 ((mockDrivers 0 (\<lambda>t. []) ! 2)\<lparr> lastUpdate := Some 0 \<rparr>)"
  by (simp add: isDriverStale_def)

text \<open>
  C1 (as amended). A \<^verbatim>\<open>drivers_list\<close> message that carries a list makes that list the store,
  as received: an id the list does not have is gone, and each record, its \<^verbatim>\<open>prevLocation\<close>
  included, is the incoming one. Nothing is carried over from the store.
\<close>

theorem drivers_list_replaces:
  assumes "m_type data = Some ''drivers_list''" "m_drivers data = DriverArray ds"
  shows "onMessage now (JObject data) drivers prev = (Drivers ds, []) \<and>
         (\<forall>i. i \<notin> driver_id ` set ds \<longrightarrow>
               get_driver i (records (fst (onMessage now (JObject data) drivers prev))) = None) \<and>
         (\<forall>i. get_driver i (records (fst (onMessage now (JObject data) drivers prev)))
                 = get_driver i ds)"
  unfolding onMessage_drivers_list[OF assms] by (simp add: get_driver_absent)

text \<open>The seed replaced by a list holding driver 2 only.\<close>

theorem drivers_list_replaces_witness:
  "get_driver ''1'' (mockDrivers 0 (\<lambda>t. [])) \<noteq> None \<and>
   get_driver ''1'' (records (fst (onMessage 1000
      (JObject (StandardMessage ''drivers_list'' None (DriverArray [mockDrivers 0 (\<lambda>t. []) ! 1])))
      (mockDrivers 0 (\<lambda>t. [])) (mockDrivers 0 (\<lambda>t. []))))) = None \<and>
   get_driver ''2'' (records (fst (onMessage 1000
      (JObject (StandardMessage ''drivers_list'' None (DriverArray [mockDrivers 0 (\<lambda>t. []) ! 1])))
      (mockDrivers 0 (\<lambda>t. [])) (mockDrivers 0 (\<lambda>t. []))))) = Some (mockDrivers 0 (\<lambda>t. []) ! 1)"
proof -
  define mock where "mock = mockDrivers 0 (\<lambda>t. [])"
  define data where "data = StandardMessage ''drivers_list'' None (DriverArray [mock ! 1])"
  have h: "m_type data = Some ''drivers_list''" "m_drivers data = DriverArray [mock ! 1]"
    by (simp_all add: data_def StandardMessage_def)
  have a: "get_driver ''1'' mock \<noteq> None"
    by (simp add: mock_def mockDrivers_def Let_def get_driver_def)
  have i2: "driver_id (mock ! 1) = ''2''"
    by (simp add: mock_def mockDrivers_def Let_def)
  from drivers_list_replaces[OF h, of 1000 mock mock]
  have r: "\<And>i. i \<notin> driver_id ` set [mock ! 1] \<Longrightarrow>
              get_driver i (records (fst (onMessage 1000 (JObject data) mock mock))) = None"
          "\<And>i. get_driver i (records (fst (onMessage 1000 (JObject data) mock mock)))
                = get_driver i [mock ! 1]"
    by blast+
  have b: "get_driver ''1'' (records (fst (onMessage 1000 (JObject data) mock mock))) = None"
    by (rule r(1)) (use i2 in simp)
  have c: "get_driver ''2'' (records (fst (onMessage 1000 (JObject data) mock mock))) = Some (mock ! 1)"
    unfolding r(2) using i2 by (simp add: get_driver_def)
  from a b c show ?thesis unfolding mock_def data_def by (intro conjI)
qed

text \<open>C1 as stated fails: driver 1 is in the store at (33.3152, 44.3661) and in the new list
  without a \<^verbatim>\<open>prevLocation\<close>; afterwards its \<^verbatim>\<open>prevLocation\<close> is still missing.\<close>

theorem drivers_list_prevLocation_counterexample:
  "map_option location (get_driver ''1'' (mockDrivers 0 (\<lambda>t. [])))
     = Some \<lparr> lat = Some (num 33.3152), lng = Some (num 44.3661) \<rparr> \<and>
   prevLocation ((mockDrivers 0 (\<lambda>t. []) ! 0)
       \<lparr> location := \<lparr> lat = Some (num 33.3252), lng = Some (num 44.3761) \<rparr> \<rparr>) = None \<and>
   map_option prevLocation (get_driver ''1'' (records (fst (onMessage 1000
      (JObject (StandardMessage ''drivers_list'' None
         (DriverArray [(mockDrivers 0 (\<lambda>t. []) ! 0)
            \<lparr> location := \<lparr> lat = Some (num 33.3252), lng = Some (num 44.3761) \<rparr> \<rparr>])))
      (mockDrivers 0 (\<lambda>t. [])) (mockDrivers 0 (\<lambda>t. []))))))
     \<noteq> Some (Some \<lparr> lat = Some (num 33.3152), lng = Some (num 44.3661) \<rparr>)"
  by (simp add: mockDrivers_def Let_def onMessage_def StandardMessage_def get_driver_def)

text \<open>
  C2 (the code at the failing input). A \<^verbatim>\<open>driver_location_update\<close> that carries driver 1
  under \<^verbatim>\<open>driver\<close> is taken by the first branch of \<open>onMessage\<close>, which reads the flat
  properties: a new driver without coordinates is appended and driver 1 stays as it was,
  where \<open>updateDriverLocation\<close> would have merged the record into driver 1.
\<close>

theorem standard_update_takes_flutter_branch:
  "onMessage 1000
     (JObject (StandardMessage ''driver_location_update''
        (Some ((mockDrivers 0 (\<lambda>t. []) ! 0)
           \<lparr> location := \<lparr> lat = Some (num 33.3252), lng = Some (num 44.3761) \<rparr> \<rparr>)) Missing))
     (mockDrivers 0 (\<lambda>t. [])) (mockDrivers 0 (\<lambda>t. []))
   = (Drivers (mockDrivers 0 (\<lambda>t. []) @
        [\<lparr> driver_id = ''flutter-1000'', name = ''Unknown Driver'', vehicle = ''Unknown Vehicle'',
           status = Active, location = \<lparr> lat = None, lng = None \<rparr>, prevLocation = None,
           phone = Some ''Unknown'', currentDelivery = None, lastUpdate = Some 1000 \<rparr>]),
      [ToastSuccess ''New driver connected: Unknown Driver'']) \<and>
   fst (updateDriverLocation 1000
         ((mockDrivers 0 (\<lambda>t. []) ! 0)
            \<lparr> location := \<lparr> lat = Some (num 33.3252), lng = Some (num 44.3761) \<rparr> \<rparr>)
         (mockDrivers 0 (\<lambda>t. [])))
   = (mockDrivers 0 (\<lambda>t. []))
       [0 := (mockDrivers 0 (\<lambda>t. []) ! 0)
               \<lparr> location := \<lparr> lat = Some (num 33.3252), lng = Some (num 44.3761) \<rparr>,
                 prevLocation := Some \<lparr> lat = Some (num 33.3152), lng = Some (num 44.3661) \<rparr>,
                 lastUpdate := Some 1000 \<rparr>]"
  by (simp add: onMessage_def StandardMessage_def processFlutterUpdate_def or_else_def
        toString_def digits.simps updateDriverLocation_def spread_def mockDrivers_def Let_def)

text \<open>
  C4 (the code at the failing input). The page is rendered with the seed; a
  \<^verbatim>\<open>drivers_list\<close> message leaves driver 2 alone in the store, and before the page is
  rendered again a translated update for id 1 arrives. Its handler still finds driver 1 in the
  list of its render and passes the patched old record to the updater, which does not find
  the id in the store and appends the record: one record is appended, active and stamped,
  and one notification is raised, but the record carries the old delivery of driver 1 where
  the new-driver branch of \<open>processFlutterUpdate\<close> sets \<^verbatim>\<open>currentDelivery\<close> to \<^verbatim>\<open>null\<close>.
\<close>

theorem stale_handler_appends_old_delivery:
  "reconcile_all
     [Message 1000 (mockDrivers 0 (\<lambda>t. []))
        (JObject (StandardMessage ''drivers_list'' None (DriverArray [mockDrivers 0 (\<lambda>t. []) ! 1])))]
     (mockDrivers 0 (\<lambda>t. []))
   = Drivers [mockDrivers 0 (\<lambda>t. []) ! 1] \<and>
   ''1'' \<notin> driver_id ` set [mockDrivers 0 (\<lambda>t. []) ! 1] \<and>
   onMessage 1001
     (JObject (FlutterDriverUpdate (Some (num 33.3252)) (Some (num 44.3761)) None None (Some ''1'')))
     (mockDrivers 0 (\<lambda>t. [])) [mockDrivers 0 (\<lambda>t. []) ! 1]
   = (Drivers [mockDrivers 0 (\<lambda>t. []) ! 1,
               \<lparr> driver_id = ''1'', name = ''John Doe'', vehicle = ''Delivery Van'', status = Active,
                 location = \<lparr> lat = Some (num 33.3252), lng = Some (num 44.3761) \<rparr>,
                 prevLocation = None, phone = Some ''+964 750 123 4567'',
                 currentDelivery = Some \<lparr> delivery_id = ''del-123'',
                                          address = ''Karrada, Baghdad, Iraq'',
                                          estimatedArrival = [] \<rparr>,
                 lastUpdate = Some 1001 \<rparr>],
      [ToastSuccess ''New driver connected: John Doe''])"
  by (simp add: onMessage_def StandardMessage_def FlutterDriverUpdate_def processFlutterUpdate_def
        or_else_def updateDriverLocation_own_phone_def mockDrivers_def Let_def)

text \<open>
  C5 (as amended). From a store without duplicate ids, a sequence of reconcile operations
  keeps the store a list of drivers with the ids apart, after every step, provided every
  replacement is a list of drivers free of duplicates and every update that the handler
  takes for a new driver (no id, or an id that the list of its render does not have) comes
  under an id the store does not have (\<open>admissible_all\<close>). Updates for a driver the handler
  knows and ticks need no condition.
\<close>

theorem reconcile_all_distinct:
  assumes "distinct_ids prev" "admissible_all ops prev"
  shows "\<exists>after. reconcile_all (take n ops) prev = Drivers after \<and> distinct_ids after"
  using assms(1) admissible_all_take[OF assms(2)] by (rule admissible_all_distinct)

text \<open>A replacement, a tick, an update with an id and one without, on the seed, each
  handled by the handler of the first render.\<close>

theorem reconcile_all_distinct_witness:
  "distinct_ids (mockDrivers 0 (\<lambda>t. [])) \<and>
   admissible_all
     [Message 1000 (mockDrivers 0 (\<lambda>t. []))
        (JObject (StandardMessage ''drivers_list'' None
           (DriverArray [mockDrivers 0 (\<lambda>t. []) ! 1, mockDrivers 0 (\<lambda>t. []) ! 2]))),
      Tick 3000 (\<lambda>k. Finite (1 / 4)),
      Message 4000 (mockDrivers 0 (\<lambda>t. []))
        (JObject (FlutterDriverUpdate (Some (num 33.3)) (Some (num 44.4)) (Some ''Jane'') None (Some ''2''))),
      Message 5000 (mockDrivers 0 (\<lambda>t. []))
        (JObject (FlutterDriverUpdate (Some (num 33.5)) (Some (num 44.5)) (Some ''Ali'') (Some ''0770'') None))]
     (mockDrivers 0 (\<lambda>t. [])) \<and>
   map driver_id (records (reconcile_all (take 4
     [Message 1000 (mockDrivers 0 (\<lambda>t. []))
        (JObject (StandardMessage ''drivers_list'' None
           (DriverArray [mockDrivers 0 (\<lambda>t. []) ! 1, mockDrivers 0 (\<lambda>t. []) ! 2]))),
      Tick 3000 (\<lambda>k. Finite (1 / 4)),
      Message 4000 (mockDrivers 0 (\<lambda>t. []))
        (JObject (FlutterDriverUpdate (Some (num 33.3)) (Some (num 44.4)) (Some ''Jane'') None (Some ''2''))),
      Message 5000 (mockDrivers 0 (\<lambda>t. []))
        (JObject (FlutterDriverUpdate (Some (num 33.5)) (Some (num 44.5)) (Some ''Ali'') (Some ''0770'') None))])
     (mockDrivers 0 (\<lambda>t. [])))) = [''2'', ''3'', ''flutter-5000''] \<and>
   distinct_ids (records (reconcile_all (take 4
     [Message 1000 (mockDrivers 0 (\<lambda>t. []))
        (JObject (StandardMessage ''drivers_list'' None
           (DriverArray [mockDrivers 0 (\<lambda>t. []) ! 1, mockDrivers 0 (\<lambda>t. []) ! 2]))),
      Tick 3000 (\<lambda>k. Finite (1 / 4)),
      Message 4000 (mockDrivers 0 (\<lambda>t. []))
        (JObject (FlutterDriverUpdate (Some (num 33.3)) (Some (num 44.4)) (Some ''Jane'') None (Some ''2''))),
      Message 5000 (mockDrivers 0 (\<lambda>t. []))
        (JObject (FlutterDriverUpdate (Some (num 33.5)) (Some (num 44.5)) (Some ''Ali'') (Some ''0770'') None))])
     (mockDrivers 0 (\<lambda>t. []))))"
proof -
  define mock where "mock = mockDrivers 0 (\<lambda>t. [])"
  define ops where "ops =
     [Message 1000 mock
        (JObject (StandardMessage ''drivers_list'' None (DriverArray [mock ! 1, mock ! 2]))),
      Tick 3000 (\<lambda>k. Finite (1 / 4)),
      Message 4000 mock
        (JObject (FlutterDriverUpdate (Some (num 33.3)) (Some (num 44.4)) (Some ''Jane'') None (Some ''2''))),
      Message 5000 mock
        (JObject (FlutterDriverUpdate (Some (num 33.5)) (Some (num 44.5)) (Some ''Ali'') (Some ''0770'') None))]"
  have h1: "distinct_ids mock"
    by (simp add: mock_def mockDrivers_def Let_def distinct_ids_def)
  have ev: "map driver_id (records (reconcile_all (take 4 ops) mock)) = [''2'', ''3'', ''flutter-5000'']"
    by (simp add: ops_def mock_def mockDrivers_def onMessage_def StandardMessage_def
          FlutterDriverUpdate_def processFlutterUpdate_def updateDriverLocation_own_phone_def
          spread_def or_else_def toString_def digits.simps jsadd_def Let_def)
  have h2: "admissible_all ops mock"
    by (simp add: ops_def mock_def mockDrivers_def onMessage_def StandardMessage_def
          FlutterDriverUpdate_def processFlutterUpdate_def updateDriverLocation_own_phone_def
          spread_def or_else_def toString_def digits.simps jsadd_def Let_def distinct_ids_def
          known_def resolved_id_def)
  from reconcile_all_distinct[OF h1 h2, of 4] obtain after where
    "reconcile_all (take 4 ops) mock = Drivers after" "distinct_ids after"
    by blast
  then have d: "distinct_ids (records (reconcile_all (take 4 ops) mock))" by simp
  from h1 h2 ev d show ?thesis unfolding ops_def mock_def by (intro conjI)
qed

text \<open>C5 as stated fails three ways, each from the empty store: two updates without an id
  in the same millisecond get the same synthesized id (the second handler rendered with the
  store the first one left); a replacement list with a duplicate is stored as it is; and
  two updates with the same new id, both handled by the handler of the first render, are
  both appended.\<close>

theorem same_millisecond_counterexample:
  "distinct_ids [] \<and>
   \<not> distinct_ids (records (reconcile_all
        [Message 5000 []
           (JObject (FlutterDriverUpdate (Some (num 33.5)) (Some (num 44.5)) (Some ''Ali'') (Some ''0770'') None)),
         Message 5000
           (records (reconcile_all
              [Message 5000 []
                 (JObject (FlutterDriverUpdate (Some (num 33.5)) (Some (num 44.5)) (Some ''Ali'') (Some ''0770'') None))]
              []))
           (JObject (FlutterDriverUpdate (Some (num 33.6)) (Some (num 44.6)) (Some ''Omar'') (Some ''0780'') None))]
        [])) \<and>
   \<not> distinct_ids (records (reconcile_all
        [Message 1000 []
           (JObject (StandardMessage ''drivers_list'' None
              (DriverArray [mockDrivers 0 (\<lambda>t. []) ! 1, mockDrivers 0 (\<lambda>t. []) ! 1])))]
        [])) \<and>
   \<not> distinct_ids (records (reconcile_all
        [Message 5000 []
           (JObject (FlutterDriverUpdate (Some (num 33.5)) (Some (num 44.5)) (Some ''Ali'') (Some ''0770'') (Some ''9''))),
         Message 5001 []
           (JObject (FlutterDriverUpdate (Some (num 33.6)) (Some (num 44.6)) (Some ''Ali'') (Some ''0770'') (Some ''9'')))]
        []))"
  by (simp add: distinct_ids_def onMessage_def processFlutterUpdate_def FlutterDriverUpdate_def
        StandardMessage_def or_else_def mockDrivers_def Let_def)

text \<open>
  C6 (as amended). Undecodable text and \<^verbatim>\<open>null\<close> leave the store as it was and log one
  error. A message of an unrecognized type, or a \<^verbatim>\<open>drivers_list\<close> whose \<^verbatim>\<open>drivers\<close> is
  missing or falsy, leaves the store as it was and reports nothing. A \<^verbatim>\<open>drivers_list\<close> whose
  \<^verbatim>\<open>drivers\<close> is any other value is stored as it is, list of drivers or not, and nothing is
  reported. A \<^verbatim>\<open>driver_location_update\<close> is never rejected: for a driver the handler does
  not know (no id, or an id that the list of its render does not have) a driver is appended
  whose coordinates are whatever the message has, \<^verbatim>\<open>undefined\<close> included, and whose name and
  phone default to \<^verbatim>\<open>Unknown Driver\<close> and \<^verbatim>\<open>Unknown\<close>; for a driver the handler knows the
  store gets a record of that id with the coordinates of the message, \<^verbatim>\<open>undefined\<close> included.
\<close>

theorem invalid_message_handling:
  "(message = SyntaxError \<or> message = JNull \<longrightarrow>
      onMessage now message drivers prev
        = (Drivers prev, [ConsoleError ''Error parsing WebSocket message:''])) \<and>
   (\<forall>data. message = JObject data \<and> m_type data \<noteq> Some ''driver_location_update'' \<and>
           (m_type data \<noteq> Some ''drivers_list'' \<or> m_drivers data = Missing) \<longrightarrow>
      onMessage now message drivers prev = (Drivers prev, [])) \<and>
   (\<forall>data. message = JObject data \<and> m_type data = Some ''drivers_list'' \<longrightarrow>
      (\<forall>ds. m_drivers data = DriverArray ds \<longrightarrow>
            onMessage now message drivers prev = (Drivers ds, [])) \<and>
      (m_drivers data = OtherValue \<longrightarrow>
            onMessage now message drivers prev = (NoDriverList, []))) \<and>
   (\<forall>data. message = JObject data \<and> m_type data = Some ''driver_location_update'' \<and>
           \<not> known data drivers \<longrightarrow>
      (\<exists>d. onMessage now message drivers prev =
              (Drivers (prev @ [d]),
               [ToastSuccess (''New driver connected: '' @ or_else (m_name data) ''Unknown Driver'')]) \<and>
           driver_id d = resolved_id now data \<and>
           location d = \<lparr> lat = m_lat data, lng = m_lng data \<rparr> \<and>
           name d = or_else (m_name data) ''Unknown Driver'' \<and>
           phone d = Some (or_else (m_phone data) ''Unknown''))) \<and>
   (\<forall>data. message = JObject data \<and> m_type data = Some ''driver_location_update'' \<and>
           known data drivers \<longrightarrow>
      (\<exists>d\<in>set (records (fst (onMessage now message drivers prev))).
           Some (driver_id d) = m_id data \<and>
           location d = \<lparr> lat = m_lat data, lng = m_lng data \<rparr>))"
proof (intro conjI allI impI)
  assume "message = SyntaxError \<or> message = JNull"
  then show "onMessage now message drivers prev
      = (Drivers prev, [ConsoleError ''Error parsing WebSocket message:''])"
    by (auto simp: onMessage_def)
next
  fix data
  assume "message = JObject data \<and> m_type data \<noteq> Some ''driver_location_update'' \<and>
           (m_type data \<noteq> Some ''drivers_list'' \<or> m_drivers data = Missing)"
  then show "onMessage now message drivers prev = (Drivers prev, [])"
    by (auto simp: onMessage_def)
next
  fix data ds
  assume "message = JObject data \<and> m_type data = Some ''drivers_list''"
     and "m_drivers data = DriverArray ds"
  then show "onMessage now message drivers prev = (Drivers ds, [])"
    by (simp add: onMessage_def)
next
  fix data
  assume "message = JObject data \<and> m_type data = Some ''drivers_list''"
     and "m_drivers data = OtherValue"
  then show "onMessage now message drivers prev = (NoDriverList, [])"
    by (simp add: onMessage_def)
next
  fix data
  assume a: "message = JObject data \<and> m_type data = Some ''driver_location_update'' \<and>
           \<not> known data drivers"
  then have n: "\<not> known data drivers" by blast
  from a have o: "onMessage now message drivers prev =
           (Drivers (fst (processFlutterUpdate now data drivers prev)),
            snd (processFlutterUpdate now data drivers prev))"
    by (simp add: onMessage_location_update)
  from new_driver_appended[OF n, of now prev] obtain d where
    d: "processFlutterUpdate now data drivers prev =
              (prev @ [d],
               [ToastSuccess (''New driver connected: '' @ or_else (m_name data) ''Unknown Driver'')])"
       "driver_id d = resolved_id now data"
       "name d = or_else (m_name data) ''Unknown Driver''"
       "phone d = Some (or_else (m_phone data) ''Unknown'')"
       "location d = \<lparr> lat = m_lat data, lng = m_lng data \<rparr>"
    by blast
  show "\<exists>d. onMessage now message drivers prev =
              (Drivers (prev @ [d]),
               [ToastSuccess (''New driver connected: '' @ or_else (m_name data) ''Unknown Driver'')]) \<and>
           driver_id d = resolved_id now data \<and>
           location d = \<lparr> lat = m_lat data, lng = m_lng data \<rparr> \<and>
           name d = or_else (m_name data) ''Unknown Driver'' \<and>
           phone d = Some (or_else (m_phone data) ''Unknown'')"
    unfolding o using d by (intro exI[of _ d]) simp
next
  fix data
  assume a: "message = JObject data \<and> m_type data = Some ''driver_location_update'' \<and>
           known data drivers"
  then have o: "onMessage now message drivers prev =
           (Drivers (fst (processFlutterUpdate now data drivers prev)),
            snd (processFlutterUpdate now data drivers prev))"
    by (simp add: onMessage_location_update)
  from a have "known data drivers" by blast
  from known_driver_stored[OF this, of now prev]
  show "\<exists>d\<in>set (records (fst (onMessage now message drivers prev))).
           Some (driver_id d) = m_id data \<and>
           location d = \<lparr> lat = m_lat data, lng = m_lng data \<rparr>"
    unfolding o by auto
qed

text \<open>Undecodable text, an unknown type, a \<^verbatim>\<open>drivers_list\<close> that carries a number, and an
  update without coordinates.\<close>

theorem invalid_message_handling_witness:
  "onMessage 1000 SyntaxError (mockDrivers 0 (\<lambda>t. [])) (mockDrivers 0 (\<lambda>t. []))
     = (Drivers (mockDrivers 0 (\<lambda>t. [])), [ConsoleError ''Error parsing WebSocket message:'']) \<and>
   onMessage 1000 (JObject (StandardMessage ''ping'' None Missing))
       (mockDrivers 0 (\<lambda>t. [])) (mockDrivers 0 (\<lambda>t. []))
     = (Drivers (mockDrivers 0 (\<lambda>t. [])), []) \<and>
   onMessage 1000 (JObject (StandardMessage ''drivers_list'' None OtherValue))
       (mockDrivers 0 (\<lambda>t. [])) (mockDrivers 0 (\<lambda>t. []))
     = (NoDriverList, []) \<and>
   map (\<lambda>d. (location d, name d, phone d)) (records (fst (onMessage 1000
       (JObject (FlutterDriverUpdate None None None None None))
       [mockDrivers 0 (\<lambda>t. []) ! 2] [mockDrivers 0 (\<lambda>t. []) ! 2])))
     = [(location (mockDrivers 0 (\<lambda>t. []) ! 2), ''Dave Wilson'', Some ''+964 780 456 7890''),
        (\<lparr> lat = None, lng = None \<rparr>, ''Unknown Driver'', Some ''Unknown'')]"
proof -
  define mock where "mock = mockDrivers 0 (\<lambda>t. [])"
  define ping where "ping = StandardMessage ''ping'' None Missing"
  define other where "other = StandardMessage ''drivers_list'' None OtherValue"
  define bare where "bare = FlutterDriverUpdate None None None None None"
  have p: "m_type ping \<noteq> Some ''driver_location_update''" "m_type ping \<noteq> Some ''drivers_list''"
    by (simp_all add: ping_def StandardMessage_def)
  have q: "m_type other = Some ''drivers_list''" "m_drivers other = OtherValue"
    by (simp_all add: other_def StandardMessage_def)
  have b: "m_type bare = Some ''driver_location_update''" "\<not> known bare [mock ! 2]"
          "m_lat bare = None" "m_lng bare = None" "m_name bare = None" "m_phone bare = None"
    by (simp_all add: bare_def FlutterDriverUpdate_def known_def)
  have m: "name (mock ! 2) = ''Dave Wilson''" "phone (mock ! 2) = Some ''+964 780 456 7890''"
    by (simp_all add: mock_def mockDrivers_def Let_def)
  from invalid_message_handling[of SyntaxError 1000 mock mock]
  have r1: "onMessage 1000 SyntaxError mock mock
      = (Drivers mock, [ConsoleError ''Error parsing WebSocket message:''])"
    by blast
  from invalid_message_handling[of "JObject ping" 1000 mock mock] p
  have r2: "onMessage 1000 (JObject ping) mock mock = (Drivers mock, [])"
    by blast
  from invalid_message_handling[of "JObject other" 1000 mock mock] q
  have r3: "onMessage 1000 (JObject other) mock mock = (NoDriverList, [])"
    by blast
  from invalid_message_handling[of "JObject bare" 1000 "[mock ! 2]" "[mock ! 2]"] b(1,2)
  obtain d where "fst (onMessage 1000 (JObject bare) [mock ! 2] [mock ! 2]) = Drivers ([mock ! 2] @ [d])"
     "location d = \<lparr> lat = m_lat bare, lng = m_lng bare \<rparr>"
     "name d = or_else (m_name bare) ''Unknown Driver''"
     "phone d = Some (or_else (m_phone bare) ''Unknown'')"
    by force
  then have r4: "map (\<lambda>d. (location d, name d, phone d))
       (records (fst (onMessage 1000 (JObject bare) [mock ! 2] [mock ! 2])))
     = [(location (mock ! 2), ''Dave Wilson'', Some ''+964 780 456 7890''),
        (\<lparr> lat = None, lng = None \<rparr>, ''Unknown Driver'', Some ''Unknown'')]"
    by (simp add: b m or_else_def)
  from r1 r2 r3 r4 show ?thesis unfolding mock_def ping_def bare_def other_def by (intro conjI)
qed

text \<open>C6 as stated fails: an update without \<^verbatim>\<open>lat\<close> and \<^verbatim>\<open>lng\<close> changes the store, a
  message of an unknown type is dropped without any report, and a \<^verbatim>\<open>drivers_list\<close> that
  carries a number replaces the store.\<close>

theorem missing_coordinates_counterexample:
  "fst (onMessage 1000 (JObject (FlutterDriverUpdate None None (Some ''Ali'') (Some ''0770'') None))
         (mockDrivers 0 (\<lambda>t. [])) (mockDrivers 0 (\<lambda>t. [])))
     \<noteq> Drivers (mockDrivers 0 (\<lambda>t. [])) \<and>
   snd (onMessage 1000 (JObject (StandardMessage ''ping'' None Missing))
         (mockDrivers 0 (\<lambda>t. [])) (mockDrivers 0 (\<lambda>t. []))) = [] \<and>
   fst (onMessage 1000 (JObject (StandardMessage ''drivers_list'' None OtherValue))
         (mockDrivers 0 (\<lambda>t. [])) (mockDrivers 0 (\<lambda>t. [])))
     \<noteq> Drivers (mockDrivers 0 (\<lambda>t. []))"
  by (simp add: onMessage_def FlutterDriverUpdate_def StandardMessage_def processFlutterUpdate_def)




text \<open>
  C7 (as amended). On every frame the callback of a run computes
  \<open>t = min(elapsed / duration, 1)\<close> and the position \<open>from + (to - from) \<times> eased(t)\<close> in
  binary64, with \<open>eased\<close> as in \<open>easeInOut\<close>. If the marker accepts the position, the
  marker is moved there, the position is the one sample of this frame, and another frame is
  requested exactly when \<open>t < 1\<close>; if not, nothing changes. On a frame with
  \<open>elapsed \<ge> duration > 0\<close> the progress is 1, the position is \<open>from + (to - from) \<times> 1\<close> and
  no further frame is requested; that position is the target when the subtraction
  \<open>to - from\<close> is exact in binary64.
\<close>

theorem animation_samples:
  "progress a t = fmin (fdiv (fsub t (startTime a)) (duration a)) (Finite 1) \<and>
   interpolate a p =
     (fadd (startLng a) (fmul (fsub (endLng a) (startLng a)) (easeInOut p)),
      fadd (startLat a) (fmul (fsub (endLat a) (startLat a)) (easeInOut p))) \<and>
   easeInOut p = (if fless p (Finite (1 / 2)) then fmul (fmul (Finite 2) p) p
                  else fadd (Finite (- 1)) (fmul (fsub (Finite 4) (fmul (Finite 2) p)) p)) \<and>
   (accepts (interpolate a (progress a t)) \<longrightarrow>
      samples (animate accepts a t st) = samples st @ [(a, interpolate a (progress a t))] \<and>
      (markers st (markerId a) \<noteq> None \<longrightarrow>
         markers (animate accepts a t st) (markerId a) = Some (interpolate a (progress a t))) \<and>
      frame_requests (animate accepts a t st)
        = frame_requests st @ (if fless (progress a t) (Finite 1) then [(next_request st, a)] else [])) \<and>
   (\<not> accepts (interpolate a (progress a t)) \<longrightarrow> animate accepts a t st = st) \<and>
   (duration a = Finite d \<and> 0 < d \<and> fsub t (startTime a) = Finite el \<and> d \<le> el \<longrightarrow>
      progress a t = Finite 1 \<and>
      interpolate a (Finite 1) =
        (fadd (startLng a) (fmul (fsub (endLng a) (startLng a)) (Finite 1)),
         fadd (startLat a) (fmul (fsub (endLat a) (startLat a)) (Finite 1))) \<and>
      (accepts (interpolate a (Finite 1)) \<longrightarrow>
         samples (animate accepts a t st) = samples st @ [(a, interpolate a (Finite 1))] \<and>
         (markers st (markerId a) \<noteq> None \<longrightarrow>
            markers (animate accepts a t st) (markerId a) = Some (interpolate a (Finite 1))) \<and>
         frame_requests (animate accepts a t st) = frame_requests st) \<and>
      (startLng a = Finite slng \<and> endLng a = Finite elng \<and>
       fsub (endLng a) (startLng a) = Finite (elng - slng) \<and> num elng = Finite elng \<and>
       startLat a = Finite slat \<and> endLat a = Finite elat \<and>
       fsub (endLat a) (startLat a) = Finite (elat - slat) \<and> num elat = Finite elat \<longrightarrow>
         interpolate a (Finite 1) = (endLng a, endLat a)))"
proof (intro conjI impI)
  show "progress a t = fmin (fdiv (fsub t (startTime a)) (duration a)) (Finite 1)"
    by (simp add: progress_def Let_def)
  show "interpolate a p =
     (fadd (startLng a) (fmul (fsub (endLng a) (startLng a)) (easeInOut p)),
      fadd (startLat a) (fmul (fsub (endLat a) (startLat a)) (easeInOut p)))"
    by (simp add: interpolate_def Let_def)
  show "easeInOut p = (if fless p (Finite (1 / 2)) then fmul (fmul (Finite 2) p) p
                  else fadd (Finite (- 1)) (fmul (fsub (Finite 4) (fmul (Finite 2) p)) p))"
    by (simp add: easeInOut_def num_half)
next
  assume acc: "accepts (interpolate a (progress a t))"
  then show "samples (animate accepts a t st) = samples st @ [(a, interpolate a (progress a t))]"
    by (simp add: animate_samples)
  show "markers (animate accepts a t st) (markerId a) = Some (interpolate a (progress a t))"
    if "markers st (markerId a) \<noteq> None"
    using that acc by (rule animate_markers_same)
  show "frame_requests (animate accepts a t st)
        = frame_requests st @ (if fless (progress a t) (Finite 1) then [(next_request st, a)] else [])"
    using acc by (simp add: animate_frame_requests continues_def)
next
  assume "\<not> accepts (interpolate a (progress a t))"
  then show "animate accepts a t st = st" by (rule animate_rejected)
next
  assume f: "duration a = Finite d \<and> 0 < d \<and> fsub t (startTime a) = Finite el \<and> d \<le> el"
  then show p1: "progress a t = Finite 1"
    by (intro progress_final[of a d t el]) simp_all
  show "interpolate a (Finite 1) =
        (fadd (startLng a) (fmul (fsub (endLng a) (startLng a)) (Finite 1)),
         fadd (startLat a) (fmul (fsub (endLat a) (startLat a)) (Finite 1)))"
    by (rule interpolate_final)
  {
    assume acc: "accepts (interpolate a (Finite 1))"
    then show "samples (animate accepts a t st) = samples st @ [(a, interpolate a (Finite 1))]"
      by (simp add: animate_samples p1)
    show "markers (animate accepts a t st) (markerId a) = Some (interpolate a (Finite 1))"
      if "markers st (markerId a) \<noteq> None"
      using animate_markers_same[of st a accepts t] that acc by (simp add: p1)
    show "frame_requests (animate accepts a t st) = frame_requests st"
      by (simp add: animate_frame_requests continues_def p1)
  }
  assume "startLng a = Finite slng \<and> endLng a = Finite elng \<and>
       fsub (endLng a) (startLng a) = Finite (elng - slng) \<and> num elng = Finite elng \<and>
       startLat a = Finite slat \<and> endLat a = Finite elat \<and>
       fsub (endLat a) (startLat a) = Finite (elat - slat) \<and> num elat = Finite elat"
  then have x: "startLng a = Finite slng" "endLng a = Finite elng"
       "fsub (endLng a) (startLng a) = Finite (elng - slng)" "num elng = Finite elng"
       "startLat a = Finite slat" "endLat a = Finite elat"
       "fsub (endLat a) (startLat a) = Finite (elat - slat)" "num elat = Finite elat"
    by blast+
  then show "interpolate a (Finite 1) = (endLng a, endLat a)"
    by (rule interpolate_final_exact)
qed

text \<open>The move of the specification's scenario, (33.3152, 44.3661) to (33.3252, 44.3761)
  as JavaScript reads these numbers, in 3000 ms: the frame at 3000 ms puts the marker on the
  target exactly and requests nothing.\<close>

theorem animation_samples_witness:
  "fsub (Finite 3000) (Finite 0) = Finite 3000 \<and>
   valid_LngLat (num 44.3761, num 33.3252) \<and>
   progress (new_run 0 ''1'' (num 44.3661) (num 33.3152) (num 44.3761) (num 33.3252) (Finite 3000))
     (Finite 3000) = Finite 1 \<and>
   interpolate (new_run 0 ''1'' (num 44.3661) (num 33.3152) (num 44.3761) (num 33.3252) (Finite 3000))
     (Finite 1) = (num 44.3761, num 33.3252) \<and>
   markers (animate valid_LngLat
              (new_run 0 ''1'' (num 44.3661) (num 33.3152) (num 44.3761) (num 33.3252) (Finite 3000))
              (Finite 3000) (with_marker ''1'' (num 44.3661) (num 33.3152))) ''1''
     = Some (num 44.3761, num 33.3252) \<and>
   frame_requests (animate valid_LngLat
              (new_run 0 ''1'' (num 44.3661) (num 33.3152) (num 44.3761) (num 33.3252) (Finite 3000))
              (Finite 3000) (with_marker ''1'' (num 44.3661) (num 33.3152))) = []"
proof -
  have c: "num 44.3661 = Finite (3121986741060659 / 70368744177664)"
          "num 33.3152 = Finite (4688697572055423 / 140737488355328)"
          "num 44.3761 = Finite (6245380857004871 / 140737488355328)"
          "num 33.3252 = Finite (4690104946938977 / 140737488355328)"
    unfolding num_def by (rule round_number_small; simp add: float_eval)+
  have c': "num (6245380857004871 / 140737488355328) = Finite (6245380857004871 / 140737488355328)"
           "num (4690104946938977 / 140737488355328) = Finite (4690104946938977 / 140737488355328)"
    unfolding num_def by (rule round_number_small; simp add: float_eval)+
  define a where
    "a = new_run 0 ''1'' (num 44.3661) (num 33.3152) (num 44.3761) (num 33.3252) (Finite 3000)"
  define st where "st = with_marker ''1'' (num 44.3661) (num 33.3152)"
  have f: "fsub (Finite 3000) (Finite 0) = Finite 3000"
    unfolding fsub_def fadd_def by (simp, rule round_number_small) (simp_all add: float_eval)
  have d: "duration a = Finite 3000 \<and> (0::real) < 3000 \<and>
           fsub (Finite 3000) (startTime a) = Finite 3000 \<and> (3000::real) \<le> 3000"
    by (simp add: a_def new_run_def f)
  have x1: "fsub (Finite (6245380857004871 / 140737488355328)) (Finite (3121986741060659 / 70368744177664))
              = Finite (6245380857004871 / 140737488355328 - 3121986741060659 / 70368744177664)"
    unfolding fsub_def fadd_def by (simp, rule round_number_small) (simp_all add: float_eval)
  have x2: "fsub (Finite (4690104946938977 / 140737488355328)) (Finite (4688697572055423 / 140737488355328))
              = Finite (4690104946938977 / 140737488355328 - 4688697572055423 / 140737488355328)"
    unfolding fsub_def fadd_def by (simp, rule round_number_small) (simp_all add: float_eval)
  have x: "startLng a = Finite (3121986741060659 / 70368744177664) \<and>
       endLng a = Finite (6245380857004871 / 140737488355328) \<and>
       fsub (endLng a) (startLng a)
         = Finite (6245380857004871 / 140737488355328 - 3121986741060659 / 70368744177664) \<and>
       num (6245380857004871 / 140737488355328) = Finite (6245380857004871 / 140737488355328) \<and>
       startLat a = Finite (4688697572055423 / 140737488355328) \<and>
       endLat a = Finite (4690104946938977 / 140737488355328) \<and>
       fsub (endLat a) (startLat a)
         = Finite (4690104946938977 / 140737488355328 - 4688697572055423 / 140737488355328) \<and>
       num (4690104946938977 / 140737488355328) = Finite (4690104946938977 / 140737488355328)"
    unfolding a_def new_run_def c by (simp add: x1 x2 c')
  have v: "valid_LngLat (num 44.3761, num 33.3252)"
    unfolding c by (simp add: valid_LngLat_def fless_def)
  have m: "markers st (markerId a) \<noteq> None" "frame_requests st = []" "markerId a = ''1''"
    by (simp_all add: st_def a_def with_marker_def new_run_def)
  from animation_samples[of a "Finite 3000" _ valid_LngLat st 3000 3000
        "3121986741060659 / 70368744177664" "6245380857004871 / 140737488355328"
        "4688697572055423 / 140737488355328" "4690104946938977 / 140737488355328"] d x
  have p: "progress a (Finite 3000) = Finite 1"
    and i: "interpolate a (Finite 1) = (endLng a, endLat a)"
    and r: "valid_LngLat (interpolate a (Finite 1)) \<longrightarrow>
         (markers st (markerId a) \<noteq> None \<longrightarrow>
            markers (animate valid_LngLat a (Finite 3000) st) (markerId a)
              = Some (interpolate a (Finite 1))) \<and>
         frame_requests (animate valid_LngLat a (Finite 3000) st) = frame_requests st"
    by blast+
  from i have i': "interpolate a (Finite 1) = (num 44.3761, num 33.3252)"
    by (simp add: a_def new_run_def)
  from r v m have e: "markers (animate valid_LngLat a (Finite 3000) st) ''1''
                        = Some (num 44.3761, num 33.3252)"
                     "frame_requests (animate valid_LngLat a (Finite 3000) st) = []"
    unfolding i' by simp_all
  from f v p i' e show ?thesis unfolding a_def st_def by (intro conjI)
qed

text \<open>C7 as stated fails twice, with a marker that takes what mapbox-gl takes. From 1 to
  0.1 (the binary64 number 3602879701896397 / 36028797018963968) the last position is
  900719925474099 / 9007199254740992, that is 0.09999999999999998. And from latitude 1 to
  latitude 91 the frame at \<open>elapsed = duration\<close> emits nothing: the marker refuses the
  position.\<close>

theorem final_sample_residual_counterexample:
  "num 0.1 = Finite (3602879701896397 / 36028797018963968) \<and>
   progress (new_run 0 ''1'' (Finite 1) (Finite 1) (num 0.1) (num 0.1) (Finite 3000)) (Finite 3000)
     = Finite 1 \<and>
   interpolate (new_run 0 ''1'' (Finite 1) (Finite 1) (num 0.1) (num 0.1) (Finite 3000)) (Finite 1)
     = (Finite (900719925474099 / 9007199254740992), Finite (900719925474099 / 9007199254740992)) \<and>
   map snd (samples (animate valid_LngLat
       (new_run 0 ''1'' (Finite 1) (Finite 1) (num 0.1) (num 0.1) (Finite 3000)) (Finite 3000)
       (with_marker ''1'' (Finite 1) (Finite 1))))
     = [(Finite (900719925474099 / 9007199254740992), Finite (900719925474099 / 9007199254740992))] \<and>
   Finite (900719925474099 / 9007199254740992) \<noteq> num 0.1 \<and>
   samples (animate valid_LngLat
       (new_run 0 ''1'' (Finite 1) (Finite 1) (Finite 1) (Finite 91) (Finite 3000)) (Finite 3000)
       (with_marker ''1'' (Finite 1) (Finite 1))) = []"
proof -
  have t: "num 0.1 = Finite (3602879701896397 / 36028797018963968)"
    unfolding num_def by (rule round_number_small; simp add: float_eval)
  define a where "a = new_run 0 ''1'' (Finite 1) (Finite 1) (num 0.1) (num 0.1) (Finite 3000)"
  have e: "fsub (Finite 3000) (Finite 0) = Finite 3000"
    unfolding fsub_def fadd_def by (simp, rule round_number_small) (simp_all add: float_eval)
  have p: "progress a (Finite 3000) = Finite 1"
    by (rule progress_final[of a 3000 "Finite 3000" 3000]) (simp_all add: a_def new_run_def e)
  have s1: "fsub (Finite (3602879701896397 / 36028797018963968)) (Finite 1)
              = Finite (- (8106479329266893 / 9007199254740992))"
    unfolding fsub_def fadd_def by (simp, rule round_number_small) (simp_all add: float_eval)
  have s2: "fmul (Finite (- (8106479329266893 / 9007199254740992))) (Finite 1)
              = Finite (- (8106479329266893 / 9007199254740992))"
    unfolding fmul_def by (simp, rule round_number_small) (simp_all add: float_eval)
  have s3: "fadd (Finite 1) (Finite (- (8106479329266893 / 9007199254740992)))
              = Finite (900719925474099 / 9007199254740992)"
    unfolding fadd_def by (simp, rule round_number_small) (simp_all add: float_eval)
  have i: "interpolate a (Finite 1)
     = (Finite (900719925474099 / 9007199254740992), Finite (900719925474099 / 9007199254740992))"
    unfolding interpolate_final by (simp add: a_def new_run_def t s1 s2 s3)
  have v: "valid_LngLat (interpolate a (progress a (Finite 3000)))"
    unfolding p i by (simp add: valid_LngLat_def fless_def)
  have s: "map snd (samples (animate valid_LngLat a (Finite 3000) (with_marker ''1'' (Finite 1) (Finite 1))))
     = [(Finite (900719925474099 / 9007199254740992), Finite (900719925474099 / 9007199254740992))]"
    using v by (simp add: animate_samples with_marker_def p i)
  have n: "Finite (900719925474099 / 9007199254740992) \<noteq> num 0.1"
    unfolding t by simp
  define c where "c = new_run 0 ''1'' (Finite 1) (Finite 1) (Finite 1) (Finite 91) (Finite 3000)"
  have pc: "progress c (Finite 3000) = Finite 1"
    by (rule progress_final[of c 3000 "Finite 3000" 3000]) (simp_all add: c_def new_run_def e)
  have z1: "fsub (Finite 1) (Finite 1) = Finite 0"
    by (simp add: fsub_def fadd_def round_number_def)
  have z2: "fmul (Finite 0) (Finite 1) = Finite 0"
    by (simp add: fmul_def round_number_def)
  have z3: "fadd (Finite 1) (Finite 0) = Finite 1"
    unfolding fadd_def by (simp, rule round_number_small) (simp_all add: float_eval)
  have z4: "fsub (Finite 91) (Finite 1) = Finite 90"
    unfolding fsub_def fadd_def by (simp, rule round_number_small) (simp_all add: float_eval)
  have z5: "fmul (Finite 90) (Finite 1) = Finite 90"
    unfolding fmul_def by (simp, rule round_number_small) (simp_all add: float_eval)
  have z6: "fadd (Finite 1) (Finite 90) = Finite 91"
    unfolding fadd_def by (simp, rule round_number_small) (simp_all add: float_eval)
  have ic: "interpolate c (Finite 1) = (Finite 1, Finite 91)"
    unfolding interpolate_final by (simp add: c_def new_run_def z1 z2 z3 z4 z5 z6)
  have "\<not> valid_LngLat (interpolate c (progress c (Finite 3000)))"
    unfolding pc ic by (simp add: valid_LngLat_def fless_def)
  then have r: "samples (animate valid_LngLat c (Finite 3000) (with_marker ''1'' (Finite 1) (Finite 1))) = []"
    by (simp add: animate_rejected with_marker_def)
  from t p i s n r show ?thesis unfolding a_def c_def by (intro conjI)
qed

text \<open>
  C8 (as amended). From a state in which every requested frame is the one
  \<^verbatim>\<open>markerAnimations.current\<close> records for its marker (as it is when nothing is requested),
  every sequence of calls and frames keeps it so, with at most one run in flight for each
  marker. A call for a marker that exists leaves exactly its own run in flight for that
  marker, whatever was in flight before; in the frames that follow, every position set for
  that marker is set by the new run. A first frame whose position the marker refuses ends
  the new run with the marker where it was. If the duration is positive and the marker accepts the
  positions of the new run, a frame at \<open>elapsed \<ge> duration\<close> leaves the marker on the last
  position of the new run, \<open>from + (to - from) \<times> 1\<close>, with no run in flight; that position is
  the target when the subtraction \<open>to - from\<close> is exact in binary64.
\<close>

theorem one_animation_per_marker:
  assumes "well_formed st"
  shows "well_formed (animator_run accepts ops st) \<and>
         (\<forall>j. length (runs_for j (animator_run accepts ops st)) \<le> 1) \<and>
         (markers st i \<noteq> None \<longrightarrow>
            runs_for i (animateMarkerMovement now i slng slat elng elat d st)
              = [new_run now i slng slat elng elat d] \<and>
            (\<exists>new. samples (animator_run accepts (map Frame ts)
                             (animateMarkerMovement now i slng slat elng elat d st))
                      = samples st @ new \<and>
                   (\<forall>(a, p)\<in>set new. markerId a = i \<longrightarrow> a = new_run now i slng slat elng elat d)) \<and>
            (\<not> accepts (interpolate (new_run now i slng slat elng elat d)
                              (progress (new_run now i slng slat elng elat d) (Finite t))) \<longrightarrow>
               runs_for i (frame accepts t
                             (animateMarkerMovement now i slng slat elng elat d st)) = [] \<and>
               markers (frame accepts t
                             (animateMarkerMovement now i slng slat elng elat d st)) i
                 = markers st i) \<and>
            (d = Finite dd \<and> 0 < dd \<and> fsub (Finite t) (Finite now) = Finite el \<and> dd \<le> el \<and>
             (\<forall>u\<in>set ts. accepts (interpolate (new_run now i slng slat elng elat d)
                                     (progress (new_run now i slng slat elng elat d) (Finite u)))) \<and>
             accepts (interpolate (new_run now i slng slat elng elat d) (Finite 1)) \<longrightarrow>
               runs_for i (frame accepts t (animator_run accepts (map Frame ts)
                             (animateMarkerMovement now i slng slat elng elat d st))) = [] \<and>
               markers (frame accepts t (animator_run accepts (map Frame ts)
                             (animateMarkerMovement now i slng slat elng elat d st))) i
                 = Some (interpolate (new_run now i slng slat elng elat d) (Finite 1)) \<and>
               interpolate (new_run now i slng slat elng elat d) (Finite 1)
                 = (fadd slng (fmul (fsub elng slng) (Finite 1)),
                    fadd slat (fmul (fsub elat slat) (Finite 1))) \<and>
               (slng = Finite x0 \<and> elng = Finite x1 \<and> fsub elng slng = Finite (x1 - x0) \<and>
                num x1 = Finite x1 \<and>
                slat = Finite y0 \<and> elat = Finite y1 \<and> fsub elat slat = Finite (y1 - y0) \<and>
                num y1 = Finite y1 \<longrightarrow>
                  markers (frame accepts t (animator_run accepts (map Frame ts)
                             (animateMarkerMovement now i slng slat elng elat d st))) i
                    = Some (elng, elat))))"
proof (intro conjI allI impI)
  show w: "well_formed (animator_run accepts ops st)"
    using assms by (rule well_formed_run)
  show "length (runs_for j (animator_run accepts ops st)) \<le> 1" for j
    using w by (rule well_formed_one_run)
next
  assume m: "markers st i \<noteq> None"
  show "runs_for i (animateMarkerMovement now i slng slat elng elat d st)
              = [new_run now i slng slat elng elat d]"
    using assms m by (rule runs_for_animateMarkerMovement)
  show "\<exists>new. samples (animator_run accepts (map Frame ts)
                             (animateMarkerMovement now i slng slat elng elat d st))
                      = samples st @ new \<and>
                   (\<forall>(a, p)\<in>set new. markerId a = i \<longrightarrow> a = new_run now i slng slat elng elat d)"
    using assms m by (rule second_call_samples)
next
  assume m: "markers st i \<noteq> None"
     and r: "\<not> accepts (interpolate (new_run now i slng slat elng elat d)
                              (progress (new_run now i slng slat elng elat d) (Finite t)))"
  show "runs_for i (frame accepts t (animateMarkerMovement now i slng slat elng elat d st)) = []"
    using assms m r by (rule rejected_run_stays(1))
  show "markers (frame accepts t (animateMarkerMovement now i slng slat elng elat d st)) i
          = markers st i"
    using assms m r by (rule rejected_run_stays(2))
next
  let ?a = "new_run now i slng slat elng elat d"
  assume m: "markers st i \<noteq> None"
     and t: "d = Finite dd \<and> 0 < dd \<and> fsub (Finite t) (Finite now) = Finite el \<and> dd \<le> el \<and>
             (\<forall>u\<in>set ts. accepts (interpolate ?a (progress ?a (Finite u)))) \<and>
             accepts (interpolate ?a (Finite 1))"
  from t have t': "d = Finite dd" "0 < dd" "fsub (Finite t) (Finite now) = Finite el" "dd \<le> el"
       "\<forall>u\<in>set ts. accepts (interpolate ?a (progress ?a (Finite u)))"
       "accepts (interpolate ?a (Finite 1))"
    by blast+
  show "runs_for i (frame accepts t (animator_run accepts (map Frame ts)
                             (animateMarkerMovement now i slng slat elng elat d st))) = []"
    using assms m t' by (rule second_call_runs_to_end(1))
  show e: "markers (frame accepts t (animator_run accepts (map Frame ts)
                             (animateMarkerMovement now i slng slat elng elat d st))) i
                 = Some (interpolate ?a (Finite 1))"
    using assms m t' by (rule second_call_runs_to_end(2))
  show "interpolate ?a (Finite 1)
                 = (fadd slng (fmul (fsub elng slng) (Finite 1)),
                    fadd slat (fmul (fsub elat slat) (Finite 1)))"
    unfolding interpolate_final by (simp add: new_run_def)
  assume x: "slng = Finite x0 \<and> elng = Finite x1 \<and> fsub elng slng = Finite (x1 - x0) \<and>
                num x1 = Finite x1 \<and>
                slat = Finite y0 \<and> elat = Finite y1 \<and> fsub elat slat = Finite (y1 - y0) \<and>
                num y1 = Finite y1"
  then have "startLng ?a = Finite x0" "endLng ?a = Finite x1"
       "fsub (endLng ?a) (startLng ?a) = Finite (x1 - x0)" "num x1 = Finite x1"
       "startLat ?a = Finite y0" "endLat ?a = Finite y1"
       "fsub (endLat ?a) (startLat ?a) = Finite (y1 - y0)" "num y1 = Finite y1"
    by (auto simp: new_run_def)
  then have "interpolate ?a (Finite 1) = (endLng ?a, endLat ?a)"
    by (rule interpolate_final_exact)
  then have "interpolate ?a (Finite 1) = (elng, elat)" by (simp add: new_run_def)
  with e show "markers (frame accepts t (animator_run accepts (map Frame ts)
                             (animateMarkerMovement now i slng slat elng elat d st))) i
                    = Some (elng, elat)"
    by simp
qed

text \<open>With a marker that accepts every position: a move from (1, 1) to (2, 2) is in flight
  after the frame at 16 ms; the move to (3, 3) started at 20 ms replaces it and ends on
  (3, 3).\<close>

theorem one_animation_per_marker_witness:
  "well_formed (with_marker ''1'' (Finite 1) (Finite 1)) \<and>
   runs_for ''1'' (animator_run (\<lambda>p. True)
       [Animate 0 ''1'' (Finite 1) (Finite 1) (Finite 2) (Finite 2) (Finite 3000), Frame 16]
       (with_marker ''1'' (Finite 1) (Finite 1)))
     = [new_run 0 ''1'' (Finite 1) (Finite 1) (Finite 2) (Finite 2) (Finite 3000)] \<and>
   runs_for ''1'' (animator_run (\<lambda>p. True)
       [Animate 0 ''1'' (Finite 1) (Finite 1) (Finite 2) (Finite 2) (Finite 3000), Frame 16,
        Animate 20 ''1'' (Finite 2) (Finite 2) (Finite 3) (Finite 3) (Finite 3000)]
       (with_marker ''1'' (Finite 1) (Finite 1)))
     = [new_run 20 ''1'' (Finite 2) (Finite 2) (Finite 3) (Finite 3) (Finite 3000)] \<and>
   runs_for ''1'' (animator_run (\<lambda>p. True)
       [Animate 0 ''1'' (Finite 1) (Finite 1) (Finite 2) (Finite 2) (Finite 3000), Frame 16,
        Animate 20 ''1'' (Finite 2) (Finite 2) (Finite 3) (Finite 3) (Finite 3000),
        Frame 32, Frame 3020]
       (with_marker ''1'' (Finite 1) (Finite 1))) = [] \<and>
   markers (animator_run (\<lambda>p. True)
       [Animate 0 ''1'' (Finite 1) (Finite 1) (Finite 2) (Finite 2) (Finite 3000), Frame 16,
        Animate 20 ''1'' (Finite 2) (Finite 2) (Finite 3) (Finite 3) (Finite 3000),
        Frame 32, Frame 3020]
       (with_marker ''1'' (Finite 1) (Finite 1))) ''1'' = Some (Finite 3, Finite 3)"
proof -
  define st0 where "st0 = with_marker ''1'' (Finite 1) (Finite 1)"
  define stA where
    "stA = animateMarkerMovement 0 ''1'' (Finite 1) (Finite 1) (Finite 2) (Finite 2) (Finite 3000) st0"
  define stF where "stF = frame (\<lambda>p. True) 16 stA"
  define stB where
    "stB = animateMarkerMovement 20 ''1'' (Finite 2) (Finite 2) (Finite 3) (Finite 3) (Finite 3000) stF"
  have w0: "well_formed st0"
    by (simp add: st0_def with_marker_def well_formed_def)
  have m0: "markers st0 ''1'' \<noteq> None"
    by (simp add: st0_def with_marker_def)
  from one_animation_per_marker[OF w0, where accepts="\<lambda>p. True"
        and ops="[Animate 0 ''1'' (Finite 1) (Finite 1) (Finite 2) (Finite 2) (Finite 3000), Frame 16]"
        and i="''1''" and now=0 and slng="Finite 1" and slat="Finite 1" and elng="Finite 2"
        and elat="Finite 2" and d="Finite 3000"]
    m0
  have wF: "well_formed stF"
    and rA: "runs_for ''1'' stA
               = [new_run 0 ''1'' (Finite 1) (Finite 1) (Finite 2) (Finite 2) (Finite 3000)]"
    by (simp_all add: stF_def stA_def)
  have mF: "markers stF ''1'' \<noteq> None"
    using m0 by (simp add: stF_def stA_def frame_markers_dom animateMarkerMovement_effect)
  have q1: "fsub (Finite 16) (Finite 0) = Finite 16"
    unfolding fsub_def fadd_def by (simp, rule round_number_small) (simp_all add: float_eval)
  have q2: "fdiv (Finite 16) (Finite 3000) = Finite (6148914691236517 / 1152921504606846976)"
    unfolding fdiv_def by (simp, rule round_number_small) (simp_all add: float_eval)
  have "continues (\<lambda>p. True)
          (new_run 0 ''1'' (Finite 1) (Finite 1) (Finite 2) (Finite 2) (Finite 3000)) (Finite 16)"
    by (simp add: continues_def progress_def new_run_def q1 q2 fmin_def fless_def)
  then have rF: "runs_for ''1'' stF
                   = [new_run 0 ''1'' (Finite 1) (Finite 1) (Finite 2) (Finite 2) (Finite 3000)]"
    unfolding stF_def frame_runs_for rA by simp
  have e1: "fsub (Finite 3020) (Finite 20) = Finite 3000"
    unfolding fsub_def fadd_def by (simp, rule round_number_small) (simp_all add: float_eval)
  have e2: "fsub (Finite 3) (Finite 2) = Finite (3 - 2)"
    unfolding fsub_def fadd_def by (simp, rule round_number_small) (simp_all add: float_eval)
  have e3: "num 3 = Finite 3"
    unfolding num_def by (rule round_number_small) (simp_all add: float_eval)
  have e4: "fmul (Finite 1) (Finite 1) = Finite 1"
    unfolding fmul_def by (simp, rule round_number_small) (simp_all add: float_eval)
  have e5: "fadd (Finite 2) (Finite 1) = Finite 3"
    unfolding fadd_def by (simp, rule round_number_small) (simp_all add: float_eval)
  note e = e1 e2 e3 e4 e5
  from one_animation_per_marker[OF wF, where accepts="\<lambda>p. True" and ops="[]" and i="''1''"
        and now=20 and slng="Finite 2" and slat="Finite 2" and elng="Finite 3" and elat="Finite 3"
        and d="Finite 3000" and ts="[32]" and dd=3000 and t=3020 and el=3000
        and ?x0.0=2 and ?x1.0=3 and ?y0.0=2 and ?y1.0=3] mF e
  have rB: "runs_for ''1'' stB
              = [new_run 20 ''1'' (Finite 2) (Finite 2) (Finite 3) (Finite 3) (Finite 3000)]"
    and rE: "runs_for ''1'' (frame (\<lambda>p. True) 3020 (animator_run (\<lambda>p. True) (map Frame [32]) stB)) = []"
    and mE: "markers (frame (\<lambda>p. True) 3020 (animator_run (\<lambda>p. True) (map Frame [32]) stB)) ''1''
               = Some (Finite 3, Finite 3)"
    by (simp_all add: stB_def)
  from w0 rF rB rE mE show ?thesis
    unfolding stB_def stF_def stA_def st0_def by simp
qed

text \<open>C8 as stated fails twice, with a marker that takes what mapbox-gl takes. The marker is
  at (1, 1) and a move to (1, 1) is in flight when a move from (1, 1) to (0.1, 0.1) is
  started at 3 ms: the frame at 3003 ms ends it on 0.09999999999999998, not on the target.
  And when the second move is to latitude 91, the frame at 3003 ms ends it with the marker
  still at (1, 1): the marker refuses the position.\<close>

theorem surviving_run_off_target_counterexample:
  "runs_for ''1'' (animator_run valid_LngLat
       [Animate 0 ''1'' (Finite 1) (Finite 1) (Finite 1) (Finite 1) (Finite 3000)]
       (with_marker ''1'' (Finite 1) (Finite 1)))
     = [new_run 0 ''1'' (Finite 1) (Finite 1) (Finite 1) (Finite 1) (Finite 3000)] \<and>
   runs_for ''1'' (animator_run valid_LngLat
       [Animate 0 ''1'' (Finite 1) (Finite 1) (Finite 1) (Finite 1) (Finite 3000),
        Animate 3 ''1'' (Finite 1) (Finite 1) (num 0.1) (num 0.1) (Finite 3000), Frame 3003]
       (with_marker ''1'' (Finite 1) (Finite 1))) = [] \<and>
   markers (animator_run valid_LngLat
       [Animate 0 ''1'' (Finite 1) (Finite 1) (Finite 1) (Finite 1) (Finite 3000),
        Animate 3 ''1'' (Finite 1) (Finite 1) (num 0.1) (num 0.1) (Finite 3000), Frame 3003]
       (with_marker ''1'' (Finite 1) (Finite 1))) ''1''
     = Some (Finite (900719925474099 / 9007199254740992),
             Finite (900719925474099 / 9007199254740992)) \<and>
   Finite (900719925474099 / 9007199254740992) \<noteq> num 0.1 \<and>
   runs_for ''1'' (animator_run valid_LngLat
       [Animate 0 ''1'' (Finite 1) (Finite 1) (Finite 1) (Finite 1) (Finite 3000),
        Animate 3 ''1'' (Finite 1) (Finite 1) (Finite 1) (Finite 91) (Finite 3000), Frame 3003]
       (with_marker ''1'' (Finite 1) (Finite 1))) = [] \<and>
   markers (animator_run valid_LngLat
       [Animate 0 ''1'' (Finite 1) (Finite 1) (Finite 1) (Finite 1) (Finite 3000),
        Animate 3 ''1'' (Finite 1) (Finite 1) (Finite 1) (Finite 91) (Finite 3000), Frame 3003]
       (with_marker ''1'' (Finite 1) (Finite 1))) ''1''
     = Some (Finite 1, Finite 1)"
proof -
  define st0 where "st0 = with_marker ''1'' (Finite 1) (Finite 1)"
  define stA where
    "stA = animateMarkerMovement 0 ''1'' (Finite 1) (Finite 1) (Finite 1) (Finite 1) (Finite 3000) st0"
  define b where "b = new_run 3 ''1'' (Finite 1) (Finite 1) (num 0.1) (num 0.1) (Finite 3000)"
  define c where "c = new_run 3 ''1'' (Finite 1) (Finite 1) (Finite 1) (Finite 91) (Finite 3000)"
  have w0: "well_formed st0"
    by (simp add: st0_def with_marker_def well_formed_def)
  have m0: "markers st0 ''1'' \<noteq> None" "markers st0 ''1'' = Some (Finite 1, Finite 1)"
    by (simp_all add: st0_def with_marker_def)
  have rA: "runs_for ''1'' stA
              = [new_run 0 ''1'' (Finite 1) (Finite 1) (Finite 1) (Finite 1) (Finite 3000)]"
    unfolding stA_def using w0 m0(1) by (rule runs_for_animateMarkerMovement)
  have wA: "well_formed stA"
    unfolding stA_def using w0 by (rule well_formed_animateMarkerMovement)
  have mA: "markers stA ''1'' \<noteq> None" "markers stA ''1'' = Some (Finite 1, Finite 1)"
    using m0 by (simp_all add: stA_def animateMarkerMovement_effect)
  have t: "num 0.1 = Finite (3602879701896397 / 36028797018963968)"
    unfolding num_def by (rule round_number_small; simp add: float_eval)
  have e: "fsub (Finite 3003) (Finite 3) = Finite 3000"
    unfolding fsub_def fadd_def by (simp, rule round_number_small) (simp_all add: float_eval)
  have s1: "fsub (Finite (3602879701896397 / 36028797018963968)) (Finite 1)
              = Finite (- (8106479329266893 / 9007199254740992))"
    unfolding fsub_def fadd_def by (simp, rule round_number_small) (simp_all add: float_eval)
  have s2: "fmul (Finite (- (8106479329266893 / 9007199254740992))) (Finite 1)
              = Finite (- (8106479329266893 / 9007199254740992))"
    unfolding fmul_def by (simp, rule round_number_small) (simp_all add: float_eval)
  have s3: "fadd (Finite 1) (Finite (- (8106479329266893 / 9007199254740992)))
              = Finite (900719925474099 / 9007199254740992)"
    unfolding fadd_def by (simp, rule round_number_small) (simp_all add: float_eval)
  have ib: "interpolate b (Finite 1)
     = (Finite (900719925474099 / 9007199254740992), Finite (900719925474099 / 9007199254740992))"
    unfolding interpolate_final by (simp add: b_def new_run_def t s1 s2 s3)
  have vb: "valid_LngLat (interpolate b (Finite 1))"
    unfolding ib by (simp add: valid_LngLat_def fless_def)
  have "runs_for ''1'' (frame valid_LngLat 3003 (animator_run valid_LngLat (map Frame [])
            (animateMarkerMovement 3 ''1'' (Finite 1) (Finite 1) (num 0.1) (num 0.1) (Finite 3000) stA))) = []"
    using wA mA(1) refl _ e _ _ vb[unfolded b_def]
    by (rule second_call_runs_to_end(1)) simp_all
  then have r1: "runs_for ''1'' (frame valid_LngLat 3003
            (animateMarkerMovement 3 ''1'' (Finite 1) (Finite 1) (num 0.1) (num 0.1) (Finite 3000) stA)) = []"
    by simp
  have "markers (frame valid_LngLat 3003 (animator_run valid_LngLat (map Frame [])
            (animateMarkerMovement 3 ''1'' (Finite 1) (Finite 1) (num 0.1) (num 0.1) (Finite 3000) stA))) ''1''
          = Some (interpolate b (Finite 1))"
    unfolding b_def using wA mA(1) refl _ e _ _ vb[unfolded b_def]
    by (rule second_call_runs_to_end(2)) simp_all
  then have r2: "markers (frame valid_LngLat 3003
            (animateMarkerMovement 3 ''1'' (Finite 1) (Finite 1) (num 0.1) (num 0.1) (Finite 3000) stA)) ''1''
          = Some (Finite (900719925474099 / 9007199254740992),
                  Finite (900719925474099 / 9007199254740992))"
    by (simp add: ib)
  have n: "Finite (900719925474099 / 9007199254740992) \<noteq> num 0.1"
    unfolding t by simp
  have pc: "progress c (Finite 3003) = Finite 1"
    by (rule progress_final[of c 3000 "Finite 3003" 3000]) (simp_all add: c_def new_run_def e)
  have z1: "fsub (Finite 1) (Finite 1) = Finite 0"
    by (simp add: fsub_def fadd_def round_number_def)
  have z2: "fmul (Finite 0) (Finite 1) = Finite 0"
    by (simp add: fmul_def round_number_def)
  have z3: "fadd (Finite 1) (Finite 0) = Finite 1"
    unfolding fadd_def by (simp, rule round_number_small) (simp_all add: float_eval)
  have z4: "fsub (Finite 91) (Finite 1) = Finite 90"
    unfolding fsub_def fadd_def by (simp, rule round_number_small) (simp_all add: float_eval)
  have z5: "fmul (Finite 90) (Finite 1) = Finite 90"
    unfolding fmul_def by (simp, rule round_number_small) (simp_all add: float_eval)
  have z6: "fadd (Finite 1) (Finite 90) = Finite 91"
    unfolding fadd_def by (simp, rule round_number_small) (simp_all add: float_eval)
  have ic: "interpolate c (Finite 1) = (Finite 1, Finite 91)"
    unfolding interpolate_final by (simp add: c_def new_run_def z1 z2 z3 z4 z5 z6)
  have vc: "\<not> valid_LngLat (interpolate c (progress c (Finite 3003)))"
    unfolding pc ic by (simp add: valid_LngLat_def fless_def)
  note rj = rejected_run_stays[where accepts=valid_LngLat, OF wA mA(1) vc[unfolded c_def]]
  from rj(2) mA(2) have r4: "markers (frame valid_LngLat 3003
            (animateMarkerMovement 3 ''1'' (Finite 1) (Finite 1) (Finite 1) (Finite 91) (Finite 3000) stA)) ''1''
          = Some (Finite 1, Finite 1)"
    by simp
  from rA r1 r2 n rj(1) r4 show ?thesis
    unfolding stA_def st0_def by simp
qed

end
